theory Spec2Isabelle
  imports Complex_Main "HOL-Library.AList" "HOL-Library.Sublist"
begin

section \<open>Values and errors\<close>

text \<open>
  Every record the filter sees comes out of \<^verbatim>\<open>json.loads\<close>, so a raw value is any
  JSON value. A Python \<^verbatim>\<open>str\<close> is a list of characters, one per code point (the model
  covers the code points below 256); a \<^verbatim>\<open>dict\<close> is an association list in insertion
  order, looked up with \<^const>\<open>map_of\<close>; a \<^verbatim>\<open>float\<close> is given by its value (the
  infinities and NaN, which behave like any nonzero float in every test made here, are
  not told apart).
\<close>

datatype json =
    JNull
  | JBool bool
  | JInt int
  | JFloat rat
  | JStr string
  | JArr "json list"
  | JObj "(string \<times> json) list"

datatype error = TypeError | AttributeError | KeyError

text \<open>Python's truth value of a JSON value (\<^verbatim>\<open>if x:\<close>, \<^verbatim>\<open>not x\<close>).\<close>

fun truthy :: "json \<Rightarrow> bool" where
  "truthy JNull = False"
| "truthy (JBool b) = b"
| "truthy (JInt i) = (i \<noteq> 0)"
| "truthy (JFloat r) = (r \<noteq> 0)"
| "truthy (JStr s) = (s \<noteq> [])"
| "truthy (JArr xs) = (xs \<noteq> [])"
| "truthy (JObj kv) = (kv \<noteq> [])"

text \<open>\<^verbatim>\<open>data.get(key, default)\<close> on a dict.\<close>

definition dict_get :: "(string \<times> json) list \<Rightarrow> string \<Rightarrow> json \<Rightarrow> json" where
  "dict_get data key dflt = (case map_of data key of Some v \<Rightarrow> v | None \<Rightarrow> dflt)"

text \<open>
  \<^verbatim>\<open>x in s\<close> for a set \<^verbatim>\<open>s\<close> of strings: the value is hashed first, so a list or a
  dict raises TypeError (unhashable type); any other value that is not a string is
  hashable and equal to no string.
\<close>

fun py_in_set :: "json \<Rightarrow> string set \<Rightarrow> error + bool" where
  "py_in_set (JStr s) S = Inr (s \<in> S)"
| "py_in_set (JArr xs) S = Inl TypeError"
| "py_in_set (JObj kv) S = Inl TypeError"
| "py_in_set JNull S = Inr False"
| "py_in_set (JBool b) S = Inr False"
| "py_in_set (JInt i) S = Inr False"
| "py_in_set (JFloat r) S = Inr False"

text \<open>\<^verbatim>\<open>sub in s\<close> for two strings: \<^verbatim>\<open>sub\<close> occurs in \<^verbatim>\<open>s\<close> as a contiguous run.\<close>

fun py_contains :: "string \<Rightarrow> string \<Rightarrow> bool" where
  "py_contains sub [] = (sub = [])"
| "py_contains sub (c # cs) = (prefix sub (c # cs) \<or> py_contains sub cs)"

section \<open>models.py\<close>

record DevWalletFunding =
  wallet_address :: json
  funding_wallet_address :: json
  signature :: json
  amount_sol :: json
  funded_at :: json

record ProtocolDetails =
  creator :: json
  is_token_side_x :: json
  token_program :: json
  pair_sol_account :: json
  pair_token_account :: json
  global_addr :: json
  fee_recipient :: json
  associated_bonding_curve :: json
  event_authority :: json
  is_offchain :: json

text \<open>
  \<^verbatim>\<open>DevWalletFunding.from_ws_array\<close> and \<^verbatim>\<open>from_xhr\<close>: a falsy value gives None; on
  anything else \<^verbatim>\<open>data.get\<close> is called, which only a dict has.
\<close>

definition DevWalletFunding_from_ws_array :: "json \<Rightarrow> error + DevWalletFunding option" where
  "DevWalletFunding_from_ws_array data =
     (if \<not> truthy data then Inr None
      else case data of
        JObj d \<Rightarrow> Inr (Some \<lparr>
          wallet_address = dict_get d ''walletAddress'' (JStr ''''),
          funding_wallet_address = dict_get d ''fundingWalletAddress'' (JStr ''''),
          signature = dict_get d ''signature'' (JStr ''''),
          amount_sol = dict_get d ''amountSol'' (JFloat 0),
          funded_at = dict_get d ''fundedAt'' (JStr '''')\<rparr>)
      | _ \<Rightarrow> Inl AttributeError)"

definition DevWalletFunding_from_xhr :: "json \<Rightarrow> error + DevWalletFunding option" where
  "DevWalletFunding_from_xhr data =
     (if \<not> truthy data then Inr None
      else case data of
        JObj d \<Rightarrow> Inr (Some \<lparr>
          wallet_address = dict_get d ''walletAddress'' (JStr ''''),
          funding_wallet_address = dict_get d ''fundingWalletAddress'' (JStr ''''),
          signature = dict_get d ''signature'' (JStr ''''),
          amount_sol = dict_get d ''amountSol'' (JFloat 0),
          funded_at = dict_get d ''fundedAt'' (JStr '''')\<rparr>)
      | _ \<Rightarrow> Inl AttributeError)"

definition ProtocolDetails_from_dict :: "(string \<times> json) list \<Rightarrow> ProtocolDetails" where
  "ProtocolDetails_from_dict d = \<lparr>
     creator = dict_get d ''creator'' (JStr ''''),
     is_token_side_x = dict_get d ''isTokenSideX'' JNull,
     token_program = dict_get d ''tokenProgram'' JNull,
     pair_sol_account = dict_get d ''pairSolAccount'' JNull,
     pair_token_account = dict_get d ''pairTokenAccount'' JNull,
     global_addr = dict_get d ''global'' JNull,
     fee_recipient = dict_get d ''feeRecipient'' JNull,
     associated_bonding_curve = dict_get d ''associatedBondingCurve'' JNull,
     event_authority = dict_get d ''eventAuthority'' JNull,
     is_offchain = dict_get d ''isOffchain'' JNull\<rparr>"

text \<open>
  The fields of \<^verbatim>\<open>UpdatePulseItem\<close> hold whatever the array holds (the annotations
  are not enforced), so each is a JSON value; the two nested fields are optional records.
  The field \<^verbatim>\<open>supply\<close> is called \<open>supply_field\<close> here.
\<close>

record UpdatePulseItem =
  pair_address :: json
  token_address :: json
  dev_address :: json
  token_name :: json
  token_ticker :: json
  token_image :: json
  token_decimals :: json
  protocol :: json
  protocol_details :: "ProtocolDetails option"
  website :: json
  twitter :: json
  telegram :: json
  discord :: json
  top_10_holders_percent :: json
  dev_holds_percent :: json
  snipers_hold_percent :: json
  insiders_hold_percent :: json
  bundlers_hold_percent :: json
  volume_sol :: json
  market_cap_sol :: json
  fees_sol :: json
  liquidity_sol :: json
  liquidity_token :: json
  num_txns :: json
  num_buys :: json
  num_sells :: json
  bonding_curve_percent :: json
  supply_field :: json
  num_holders :: json
  num_trading_bot_users :: json
  migrated_date :: json
  extra :: json
  field_32 :: json
  migrated_tokens :: json
  first_mint_date :: json
  field_35 :: json
  twitter_handle_history :: json
  field_37 :: json
  dex_paid :: json
  dev_wallet_funding :: "DevWalletFunding option"
  kol_count :: json
  dev_tokens :: json
  field_42 :: json

text \<open>\<^verbatim>\<open>data[i] if len(data) > i else dflt\<close>\<close>

definition slot :: "json list \<Rightarrow> nat \<Rightarrow> json \<Rightarrow> json" where
  "slot data i dflt = (if length data > i then data ! i else dflt)"

text \<open>\<^verbatim>\<open>UpdatePulseItem.from_array\<close> on a list.\<close>

definition UpdatePulseItem_from_array :: "json list \<Rightarrow> error + UpdatePulseItem" where
  "UpdatePulseItem_from_array data =
     (let protocol_details_v =
            (if length data > 8
             then (case data ! 8 of JObj d \<Rightarrow> Some (ProtocolDetails_from_dict d) | _ \<Rightarrow> None)
             else None)
      in case (if length data > 39 \<and> truthy (data ! 39)
               then DevWalletFunding_from_ws_array (data ! 39)
               else Inr None) of
           Inl e \<Rightarrow> Inl e
         | Inr dev_wallet_funding_v \<Rightarrow> Inr \<lparr>
             pair_address = slot data 0 (JStr ''''),
             token_address = slot data 1 (JStr ''''),
             dev_address = slot data 2 (JStr ''''),
             token_name = slot data 3 (JStr ''''),
             token_ticker = slot data 4 (JStr ''''),
             token_image = slot data 5 JNull,
             token_decimals = slot data 6 (JInt 0),
             protocol = slot data 7 (JStr ''''),
             protocol_details = protocol_details_v,
             website = slot data 9 JNull,
             twitter = slot data 10 JNull,
             telegram = slot data 11 JNull,
             discord = slot data 12 JNull,
             top_10_holders_percent = slot data 13 (JFloat 0),
             dev_holds_percent = slot data 14 (JFloat 0),
             snipers_hold_percent = slot data 15 (JFloat 0),
             insiders_hold_percent = slot data 16 (JFloat 0),
             bundlers_hold_percent = slot data 17 (JFloat 0),
             volume_sol = slot data 18 (JFloat 0),
             market_cap_sol = slot data 19 (JFloat 0),
             fees_sol = slot data 20 (JFloat 0),
             liquidity_sol = slot data 21 (JFloat 0),
             liquidity_token = slot data 22 (JFloat 0),
             num_txns = slot data 23 (JInt 0),
             num_buys = slot data 24 (JInt 0),
             num_sells = slot data 25 (JInt 0),
             bonding_curve_percent = slot data 26 (JFloat 0),
             supply_field = slot data 27 (JFloat 0),
             num_holders = slot data 28 (JInt 0),
             num_trading_bot_users = slot data 29 (JInt 0),
             migrated_date = slot data 30 JNull,
             extra = slot data 31 JNull,
             field_32 = slot data 32 JNull,
             migrated_tokens = slot data 33 JNull,
             first_mint_date = slot data 34 JNull,
             field_35 = slot data 35 JNull,
             twitter_handle_history = slot data 36 (JArr []),
             field_37 = slot data 37 JNull,
             dex_paid = slot data 38 (JBool False),
             dev_wallet_funding = dev_wallet_funding_v,
             kol_count = slot data 40 (JInt 0),
             dev_tokens = slot data 41 JNull,
             field_42 = slot data 42 JNull\<rparr>)"

text \<open>
  \<^verbatim>\<open>XHRPulseResponse\<close>; its fields carry the prefix \<open>x_\<close>, since a record field is a
  constant and most names are those of \<^verbatim>\<open>UpdatePulseItem\<close>.
\<close>

record XHRPulseResponse =
  x_pair_address :: json
  x_token_address :: json
  x_dev_address :: json
  x_token_name :: json
  x_token_ticker :: json
  x_token_image :: json
  x_token_decimals :: json
  x_protocol :: json
  x_protocol_details :: json
  x_website :: json
  x_twitter :: json
  x_telegram :: json
  x_discord :: json
  x_top_10_holders_percent :: json
  x_dev_holds_percent :: json
  x_dev_pair_count :: json
  x_snipers_hold_percent :: json
  x_insiders_hold_percent :: json
  x_bundlers_hold_percent :: json
  x_volume_sol :: json
  x_market_cap_sol :: json
  x_fees_sol :: json
  x_liquidity_sol :: json
  x_liquidity_token :: json
  x_bonding_curve_percent :: json
  x_supply :: json
  x_num_txns :: json
  x_num_buys :: json
  x_num_sells :: json
  x_num_holders :: json
  x_num_trading_bot_users :: json
  x_created_at :: json
  x_extra :: json
  x_dex_paid :: json
  x_migration_count :: json
  x_twitter_handle_history :: json
  x_open_trading :: json
  x_dev_wallet_funding :: "DevWalletFunding option"
  x_kol_count :: json

text \<open>\<^verbatim>\<open>XHRPulseResponse.from_dict\<close> on a dict.\<close>

definition XHRPulseResponse_from_dict :: "(string \<times> json) list \<Rightarrow> error + XHRPulseResponse" where
  "XHRPulseResponse_from_dict data =
     (case (case map_of data ''devWalletFunding'' of
              None \<Rightarrow> Inr None
            | Some v \<Rightarrow> if truthy v then DevWalletFunding_from_xhr v else Inr None) of
        Inl e \<Rightarrow> Inl e
      | Inr dev_wallet_funding_v \<Rightarrow> Inr \<lparr>
          x_pair_address = dict_get data ''pairAddress'' (JStr ''''),
          x_token_address = dict_get data ''tokenAddress'' (JStr ''''),
          x_dev_address = dict_get data ''devAddress'' (JStr ''''),
          x_token_name = dict_get data ''tokenName'' (JStr ''''),
          x_token_ticker = dict_get data ''tokenTicker'' (JStr ''''),
          x_token_image = dict_get data ''tokenImage'' JNull,
          x_token_decimals = dict_get data ''tokenDecimals'' (JInt 0),
          x_protocol = dict_get data ''protocol'' (JStr ''''),
          x_protocol_details = dict_get data ''protocolDetails'' (JObj []),
          x_website = dict_get data ''website'' JNull,
          x_twitter = dict_get data ''twitter'' JNull,
          x_telegram = dict_get data ''telegram'' JNull,
          x_discord = dict_get data ''discord'' JNull,
          x_top_10_holders_percent = dict_get data ''top10HoldersPercent'' (JFloat 0),
          x_dev_holds_percent = dict_get data ''devHoldsPercent'' (JFloat 0),
          x_dev_pair_count = dict_get data ''devPairCount'' (JInt 0),
          x_snipers_hold_percent = dict_get data ''snipersHoldPercent'' (JFloat 0),
          x_insiders_hold_percent = dict_get data ''insidersHoldPercent'' (JFloat 0),
          x_bundlers_hold_percent = dict_get data ''bundlersHoldPercent'' (JFloat 0),
          x_volume_sol = dict_get data ''volumeSol'' (JFloat 0),
          x_market_cap_sol = dict_get data ''marketCapSol'' (JFloat 0),
          x_fees_sol = dict_get data ''feesSol'' (JFloat 0),
          x_liquidity_sol = dict_get data ''liquiditySol'' (JFloat 0),
          x_liquidity_token = dict_get data ''liquidityToken'' (JFloat 0),
          x_bonding_curve_percent = dict_get data ''bondingCurvePercent'' (JFloat 0),
          x_supply = dict_get data ''supply'' (JFloat 0),
          x_num_txns = dict_get data ''numTxns'' (JInt 0),
          x_num_buys = dict_get data ''numBuys'' (JInt 0),
          x_num_sells = dict_get data ''numSells'' (JInt 0),
          x_num_holders = dict_get data ''numHolders'' (JInt 0),
          x_num_trading_bot_users = dict_get data ''numTradingBotUsers'' (JInt 0),
          x_created_at = dict_get data ''createdAt'' (JStr ''''),
          x_extra = dict_get data ''extra'' JNull,
          x_dex_paid = dict_get data ''dexPaid'' (JBool False),
          x_migration_count = dict_get data ''migrationCount'' (JInt 0),
          x_twitter_handle_history = dict_get data ''twitterHandleHistory'' (JArr []),
          x_open_trading = dict_get data ''openTrading'' (JStr ''''),
          x_dev_wallet_funding = dev_wallet_funding_v,
          x_kol_count = dict_get data ''kolCount'' (JInt 0)\<rparr>)"

text \<open>
  The filters hand the decoders whatever element the parsed content holds. What
  \<^verbatim>\<open>len(data)\<close> and \<^verbatim>\<open>data[i]\<close> do on a value that is not a list: a string is
  the sequence of its one-character strings; an empty dict has length 0 and is never
  indexed; a non-empty dict is indexed by an integer, which is none of its keys
  (KeyError); None, a boolean and a number have no length (TypeError).
\<close>

fun py_positional :: "json \<Rightarrow> error + json list" where
  "py_positional (JArr xs) = Inr xs"
| "py_positional (JStr s) = Inr (map (\<lambda>c. JStr [c]) s)"
| "py_positional (JObj kv) = (if kv = [] then Inr [] else Inl KeyError)"
| "py_positional JNull = Inl TypeError"
| "py_positional (JBool b) = Inl TypeError"
| "py_positional (JInt i) = Inl TypeError"
| "py_positional (JFloat r) = Inl TypeError"

text \<open>
  What \<^verbatim>\<open>XHRPulseResponse.from_dict\<close> raises on a value that is not a dict: on a
  list or a string that contains \<^verbatim>\<open>"devWalletFunding"\<close>, the subscript with a string
  (TypeError), on any other list or string the call of \<^verbatim>\<open>data.get\<close> (AttributeError);
  on None, a boolean and a number the test \<^verbatim>\<open>in\<close> itself (TypeError).
\<close>

fun from_dict_non_dict_error :: "json \<Rightarrow> error" where
  "from_dict_non_dict_error (JArr xs) =
     (if JStr ''devWalletFunding'' \<in> set xs then TypeError else AttributeError)"
| "from_dict_non_dict_error (JStr s) =
     (if py_contains ''devWalletFunding'' s then TypeError else AttributeError)"
| "from_dict_non_dict_error v = TypeError"

section \<open>config.py\<close>

record FilterConfig =
  TARGET_HOST :: string
  ROOM_NEW_PAIRS :: string
  ROOM_UPDATE_PULSE :: string
  BINANCE_ADDRESS :: string
  KUCOIN_ADDRESS :: string
  BYBIT_ADDRESS :: string
  MEXC_ADDRESS :: string
  DEV_ADDRESSES :: "string set"
  FUNDER_ADDRESSES :: "string set"
  FILTER_BY_DEV_ADDRESS :: bool
  FILTER_BY_FUNDING_WALLET :: bool
  ENABLE_LOGGING :: bool
  VERBOSE_LOGGING :: bool

text \<open>
  \<^verbatim>\<open>FilterConfig(DEV_ADDRESSES=dev, FUNDER_ADDRESSES=funder)\<close>: the declared defaults
  of the other fields, then \<^verbatim>\<open>__post_init__\<close>, which replaces a None by the built-in
  set.
\<close>

definition FilterConfig_init :: "string set option \<Rightarrow> string set option \<Rightarrow> FilterConfig" where
  "FilterConfig_init dev funder =
     (let kucoin = ''BmFdpraQhkiDQE6SnfG5omcA1VwzqfXrwtNYBwWTymy6'';
          bybit = ''iGdFcQoyR2MwbXMHQskhmNsqddZ6rinsipHc4TNSdwu'';
          mexc = ''ASTyfSima4LLAdDgoFGkgqoKowG1LZFDr9fAQrg7iaJZ''
      in \<lparr>
       TARGET_HOST = ''axiom.trade'',
       ROOM_NEW_PAIRS = ''new_pairs'',
       ROOM_UPDATE_PULSE = ''update_pulse_v2'',
       BINANCE_ADDRESS = ''5tzFkiKscXHK5ZXCGbXZxdw7gTjjD1mBwuoFbhUvuAi9'',
       KUCOIN_ADDRESS = kucoin,
       BYBIT_ADDRESS = bybit,
       MEXC_ADDRESS = mexc,
       DEV_ADDRESSES = (case dev of None \<Rightarrow> {''asdsadasdsa''} | Some s \<Rightarrow> s),
       FUNDER_ADDRESSES = (case funder of None \<Rightarrow> {kucoin, mexc, bybit} | Some s \<Rightarrow> s),
       FILTER_BY_DEV_ADDRESS = False,
       FILTER_BY_FUNDING_WALLET = True,
       ENABLE_LOGGING = False,
       VERBOSE_LOGGING = False\<rparr>)"

text \<open>The module's default instance, \<^verbatim>\<open>config = FilterConfig()\<close>.\<close>

definition config :: FilterConfig where
  "config = FilterConfig_init None None"

section \<open>filters.py\<close>

text \<open>
  \<^verbatim>\<open>MessageFilter.should_keep_update_pulse_item\<close>: decode, then the two criteria in
  the source's order. A raise of the decoder or of a membership test leaves the function.
\<close>

definition should_keep_update_pulse_item :: "FilterConfig \<Rightarrow> json \<Rightarrow> error + bool" where
  "should_keep_update_pulse_item cfg item_array =
     (case py_positional item_array of
        Inl e \<Rightarrow> Inl e
      | Inr data \<Rightarrow>
     (case UpdatePulseItem_from_array data of
        Inl e \<Rightarrow> Inl e
      | Inr item \<Rightarrow>
     (case (if FILTER_BY_DEV_ADDRESS cfg
            then py_in_set (dev_address item) (DEV_ADDRESSES cfg)
            else Inr False) of
        Inl e \<Rightarrow> Inl e
      | Inr True \<Rightarrow> Inr True
      | Inr False \<Rightarrow>
          (if FILTER_BY_FUNDING_WALLET cfg then
             (case dev_wallet_funding item of
                None \<Rightarrow> Inr False
              | Some f \<Rightarrow> py_in_set (funding_wallet_address f) (FUNDER_ADDRESSES cfg))
           else Inr False))))"

text \<open>\<^verbatim>\<open>MessageFilter.should_keep_xhr_response\<close>\<close>

definition should_keep_xhr_response :: "FilterConfig \<Rightarrow> json \<Rightarrow> error + bool" where
  "should_keep_xhr_response cfg response_dict =
     (case response_dict of
        JObj data \<Rightarrow>
          (case XHRPulseResponse_from_dict data of
             Inl e \<Rightarrow> Inl e
           | Inr response \<Rightarrow>
          (case (if FILTER_BY_DEV_ADDRESS cfg
                 then py_in_set (x_dev_address response) (DEV_ADDRESSES cfg)
                 else Inr False) of
             Inl e \<Rightarrow> Inl e
           | Inr True \<Rightarrow> Inr True
           | Inr False \<Rightarrow>
               (if FILTER_BY_FUNDING_WALLET cfg then
                  (case x_dev_wallet_funding response of
                     None \<Rightarrow> Inr False
                   | Some f \<Rightarrow> py_in_set (funding_wallet_address f) (FUNDER_ADDRESSES cfg))
                else Inr False)))
      | other \<Rightarrow> Inl (from_dict_non_dict_error other))"

text \<open>
  The list comprehensions of \<^verbatim>\<open>filter_update_pulse_content\<close> and
  \<^verbatim>\<open>filter_xhr_responses\<close>: the items are tested from left to right, and the first
  raise ends the comprehension.
\<close>

fun filter_update_pulse_content :: "FilterConfig \<Rightarrow> json list \<Rightarrow> error + json list" where
  "filter_update_pulse_content cfg [] = Inr []"
| "filter_update_pulse_content cfg (item # content) =
     (case should_keep_update_pulse_item cfg item of
        Inl e \<Rightarrow> Inl e
      | Inr keep \<Rightarrow>
          (case filter_update_pulse_content cfg content of
             Inl e \<Rightarrow> Inl e
           | Inr kept \<Rightarrow> Inr (if keep then item # kept else kept)))"

fun filter_xhr_responses :: "FilterConfig \<Rightarrow> json list \<Rightarrow> error + json list" where
  "filter_xhr_responses cfg [] = Inr []"
| "filter_xhr_responses cfg (resp # responses) =
     (case should_keep_xhr_response cfg resp of
        Inl e \<Rightarrow> Inl e
      | Inr keep \<Rightarrow>
          (case filter_xhr_responses cfg responses of
             Inl e \<Rightarrow> Inl e
           | Inr kept \<Rightarrow> Inr (if keep then resp # kept else kept)))"

text \<open>\<^verbatim>\<open>MessageFilter.should_keep_new_pair\<close>\<close>

definition should_keep_new_pair :: "FilterConfig \<Rightarrow> json \<Rightarrow> bool" where
  "should_keep_new_pair cfg content = True"

text \<open>\<^verbatim>\<open>FilterStats\<close>: six counters, Python integers.\<close>

record FilterStats =
  total_update_pulse_items :: int
  filtered_update_pulse_items :: int
  total_xhr_responses :: int
  filtered_xhr_responses :: int
  total_new_pairs :: int
  filtered_new_pairs :: int

definition FilterStats_init :: FilterStats where
  "FilterStats_init = \<lparr>
     total_update_pulse_items = 0, filtered_update_pulse_items = 0,
     total_xhr_responses = 0, filtered_xhr_responses = 0,
     total_new_pairs = 0, filtered_new_pairs = 0\<rparr>"

definition record_update_pulse :: "FilterStats \<Rightarrow> int \<Rightarrow> int \<Rightarrow> FilterStats" where
  "record_update_pulse self total_n filtered_n = self\<lparr>
     total_update_pulse_items := total_update_pulse_items self + total_n,
     filtered_update_pulse_items := filtered_update_pulse_items self + filtered_n\<rparr>"

definition record_xhr :: "FilterStats \<Rightarrow> int \<Rightarrow> int \<Rightarrow> FilterStats" where
  "record_xhr self total_n filtered_n = self\<lparr>
     total_xhr_responses := total_xhr_responses self + total_n,
     filtered_xhr_responses := filtered_xhr_responses self + filtered_n\<rparr>"

definition record_new_pair :: "FilterStats \<Rightarrow> bool \<Rightarrow> FilterStats" where
  "record_new_pair self kept =
     (let self1 = self\<lparr>total_new_pairs := total_new_pairs self + 1\<rparr>
      in if kept then self1\<lparr>filtered_new_pairs := filtered_new_pairs self1 + 1\<rparr> else self1)"

definition reset :: "FilterStats \<Rightarrow> FilterStats" where
  "reset self = self\<lparr>
     total_update_pulse_items := 0, filtered_update_pulse_items := 0,
     total_xhr_responses := 0, filtered_xhr_responses := 0,
     total_new_pairs := 0, filtered_new_pairs := 0\<rparr>"

text \<open>A call of one of the mutators of the aggregator, and a sequence of calls run in order.\<close>

datatype stats_call =
    RecordUpdatePulse int int
  | RecordXhr int int
  | RecordNewPair bool
  | Reset

fun apply_call :: "FilterStats \<Rightarrow> stats_call \<Rightarrow> FilterStats" where
  "apply_call s (RecordUpdatePulse total_n filtered_n) = record_update_pulse s total_n filtered_n"
| "apply_call s (RecordXhr total_n filtered_n) = record_xhr s total_n filtered_n"
| "apply_call s (RecordNewPair kept) = record_new_pair s kept"
| "apply_call s Reset = reset s"

definition run_calls :: "FilterStats \<Rightarrow> stats_call list \<Rightarrow> FilterStats" where
  "run_calls s calls = foldl apply_call s calls"

text \<open>The invariant on the counters, per category.\<close>

definition stats_ok :: "FilterStats \<Rightarrow> bool" where
  "stats_ok s =
     (0 \<le> filtered_update_pulse_items s \<and> filtered_update_pulse_items s \<le> total_update_pulse_items s \<and>
      0 \<le> filtered_xhr_responses s \<and> filtered_xhr_responses s \<le> total_xhr_responses s \<and>
      0 \<le> filtered_new_pairs s \<and> filtered_new_pairs s \<le> total_new_pairs s)"

text \<open>The arguments of a call are a count of items and the count of those kept.\<close>

fun call_counts_ok :: "stats_call \<Rightarrow> bool" where
  "call_counts_ok (RecordUpdatePulse total_n filtered_n) = (0 \<le> filtered_n \<and> filtered_n \<le> total_n)"
| "call_counts_ok (RecordXhr total_n filtered_n) = (0 \<le> filtered_n \<and> filtered_n \<le> total_n)"
| "call_counts_ok (RecordNewPair kept) = True"
| "call_counts_ok Reset = True"

section \<open>axiom\_filter.py\<close>

text \<open>
  The library functions the addon calls are parameters of the model: \<^verbatim>\<open>json.loads\<close>
  (None when it raises), \<^verbatim>\<open>json.dumps\<close>, the UTF-8 codec of \<^verbatim>\<open>bytes.decode\<close> (None
  when it raises) and \<^verbatim>\<open>str.encode\<close>, and \<^verbatim>\<open>base64.b64encode\<close>. Log lines are
  left out. The methods whose names start with an underscore are written without it.
\<close>

record ext =
  json_loads :: "string \<Rightarrow> json option"
  json_dumps :: "json \<Rightarrow> string"
  utf8_decode :: "string \<Rightarrow> string option"
  utf8_encode :: "string \<Rightarrow> string"
  b64encode :: "string \<Rightarrow> string"

text \<open>
  A WebSocket message of the proxy: \<^verbatim>\<open>message.drop()\<close> sets \<open>dropped\<close>, and
  \<^verbatim>\<open>message.text = t\<close> stores the encoded text as the content.
\<close>

record WebSocketMessage =
  content :: string
  is_text :: bool
  from_client :: bool
  dropped :: bool

text \<open>
  The part of a flow the hooks read and write. \<open>server_address\<close> is
  \<^verbatim>\<open>flow.server_conn.address[0]\<close>, None when there is no server connection or the
  access raises.
\<close>

record HTTPFlow =
  server_address :: "string option"
  pretty_host :: string
  request_path :: string
  request_method :: string
  websocket :: "WebSocketMessage list option"
  response_content :: string

definition is_target_host :: "FilterConfig \<Rightarrow> HTTPFlow \<Rightarrow> bool" where
  "is_target_host cfg flow =
     (let host = (case server_address flow of Some h \<Rightarrow> h | None \<Rightarrow> [])
      in py_contains (TARGET_HOST cfg) host \<or> py_contains (TARGET_HOST cfg) (pretty_host flow))"

definition decode_message_content :: "ext \<Rightarrow> string \<Rightarrow> string" where
  "decode_message_content x c =
     (case utf8_decode x c of Some t \<Rightarrow> t | None \<Rightarrow> ''base64:'' @ b64encode x c)"

text \<open>
  \<^verbatim>\<open>str.lower\<close> on the code points below 256: the ASCII capitals and the capitals
  of Latin-1 (192 to 222 without the multiplication sign 215) move up by 32.
\<close>

definition lower_char :: "char \<Rightarrow> char" where
  "lower_char c =
     (let n = (of_char c :: nat)
      in if (65 \<le> n \<and> n \<le> 90) \<or> (192 \<le> n \<and> n \<le> 222 \<and> n \<noteq> 215)
         then char_of (n + 32) else c)"

definition py_lower :: "string \<Rightarrow> string" where
  "py_lower s = map lower_char s"

definition get_room_name :: "FilterConfig \<Rightarrow> string \<Rightarrow> string option" where
  "get_room_name cfg text =
     (let text_start = take 50 (py_lower text)
      in if py_contains (ROOM_NEW_PAIRS cfg) text_start then Some (ROOM_NEW_PAIRS cfg)
         else if py_contains (ROOM_UPDATE_PULSE cfg) text_start then Some (ROOM_UPDATE_PULSE cfg)
         else None)"

text \<open>
  \<^verbatim>\<open>_filter_update_pulse_message\<close>. Every raise inside the \<^verbatim>\<open>try\<close> is caught and
  only logged, so it leaves the counters and the message as they were: that is the
  outcome when the text does not parse, when the filter raises, and when the parsed
  value is not a dict (there the code either returns at once or raises on
  \<^verbatim>\<open>data["content"]\<close>).
\<close>

definition filter_update_pulse_message ::
  "ext \<Rightarrow> FilterConfig \<Rightarrow> FilterStats \<Rightarrow> WebSocketMessage \<Rightarrow> string \<Rightarrow> FilterStats \<times> WebSocketMessage" where
  "filter_update_pulse_message x cfg stats message text =
     (case json_loads x text of
        None \<Rightarrow> (stats, message)
      | Some (JObj data) \<Rightarrow>
          (case map_of data ''content'' of
             Some (JArr content_v) \<Rightarrow>
               (case filter_update_pulse_content cfg content_v of
                  Inl e \<Rightarrow> (stats, message)
                | Inr filtered_content \<Rightarrow>
                    (let stats1 = record_update_pulse stats (int (length content_v))
                                    (int (length filtered_content))
                     in if length filtered_content = 0
                        then (stats1, message\<lparr>dropped := True\<rparr>)
                        else
                          (let new_text = json_dumps x
                                 (JObj (AList.update ''content'' (JArr filtered_content) data))
                           in (stats1,
                               if is_text message
                               then message\<lparr>content := utf8_encode x new_text\<rparr>
                               else message))))
           | _ \<Rightarrow> (stats, message))
      | Some _ \<Rightarrow> (stats, message))"

text \<open>
  \<^verbatim>\<open>_filter_new_pairs_message\<close>; what follows the update of the counters when the
  message is kept is a log line.
\<close>

definition filter_new_pairs_message ::
  "ext \<Rightarrow> FilterConfig \<Rightarrow> FilterStats \<Rightarrow> WebSocketMessage \<Rightarrow> string \<Rightarrow> FilterStats \<times> WebSocketMessage" where
  "filter_new_pairs_message x cfg stats message text =
     (case json_loads x text of
        None \<Rightarrow> (stats, message)
      | Some (JObj data) \<Rightarrow>
          (case map_of data ''content'' of
             None \<Rightarrow> (stats, message)
           | Some content_v \<Rightarrow>
               (let should_keep = should_keep_new_pair cfg content_v;
                    stats1 = record_new_pair stats should_keep
                in if \<not> should_keep then (stats1, message\<lparr>dropped := True\<rparr>)
                   else (stats1, message)))
      | Some _ \<Rightarrow> (stats, message))"

text \<open>
  The hook \<^verbatim>\<open>websocket_message\<close>: it works on the last message of the flow and
  returns the counters and the flow with that message as the filters left it.
\<close>

definition websocket_message ::
  "ext \<Rightarrow> FilterConfig \<Rightarrow> FilterStats \<Rightarrow> HTTPFlow \<Rightarrow> FilterStats \<times> HTTPFlow" where
  "websocket_message x cfg stats flow =
     (if \<not> is_target_host cfg flow then (stats, flow)
      else case websocket flow of
        None \<Rightarrow> (stats, flow)
      | Some messages \<Rightarrow>
          if messages = [] then (stats, flow)
          else
            (let message = last messages in
             if from_client message then (stats, flow)
             else
               (let text = decode_message_content x (content message);
                    room = get_room_name cfg text
                in if room = Some (ROOM_UPDATE_PULSE cfg) then
                     (case filter_update_pulse_message x cfg stats message text of
                        (stats1, message1) \<Rightarrow>
                          (stats1, flow\<lparr>websocket := Some (butlast messages @ [message1])\<rparr>))
                   else if room = Some (ROOM_NEW_PAIRS cfg) then
                     (case filter_new_pairs_message x cfg stats message text of
                        (stats1, message1) \<Rightarrow>
                          (stats1, flow\<lparr>websocket :=
                             Some (butlast messages @ [message1\<lparr>dropped := True\<rparr>])\<rparr>))
                   else (stats, flow))))"

text \<open>The hook \<^verbatim>\<open>response\<close>.\<close>

definition response ::
  "ext \<Rightarrow> FilterConfig \<Rightarrow> FilterStats \<Rightarrow> HTTPFlow \<Rightarrow> FilterStats \<times> HTTPFlow" where
  "response x cfg stats flow =
     (if request_path flow \<noteq> ''/pulse'' \<or> request_method flow \<noteq> ''POST'' then (stats, flow)
      else if \<not> is_target_host cfg flow then (stats, flow)
      else case json_loads x (response_content flow) of
        None \<Rightarrow> (stats, flow)
      | Some (JArr content_v) \<Rightarrow>
          (case filter_xhr_responses cfg content_v of
             Inl e \<Rightarrow> (stats, flow)
           | Inr filtered_content \<Rightarrow>
               (record_xhr stats (int (length content_v)) (int (length filtered_content)),
                flow\<lparr>response_content := utf8_encode x (json_dumps x (JArr filtered_content))\<rparr>))
      | Some (JObj d) \<Rightarrow>
          (case should_keep_xhr_response cfg (JObj d) of
             Inl e \<Rightarrow> (stats, flow)
           | Inr should_keep \<Rightarrow>
               (record_xhr stats 1 (if should_keep then 1 else 0),
                if \<not> should_keep
                then flow\<lparr>response_content := utf8_encode x (json_dumps x (JObj []))\<rparr>
                else flow))
      | Some _ \<Rightarrow> (stats, flow))"

section \<open>Notions used to state the properties\<close>

text \<open>A value is a member of a set of strings when it is a string of the set.\<close>

fun is_member :: "json \<Rightarrow> string set \<Rightarrow> bool" where
  "is_member (JStr a) S = (a \<in> S)"
| "is_member v S = False"

text \<open>The JSON values Python can hash: all but lists and dicts.\<close>

fun hashable :: "json \<Rightarrow> bool" where
  "hashable (JArr xs) = False"
| "hashable (JObj kv) = False"
| "hashable v = True"

text \<open>
  The keep criterion in the words of the specification, on the two fields of a decoded
  record it reads: dev-address filtering is enabled and the dev address is a member of
  the dev addresses, or funding-wallet filtering is enabled and the funding record is
  present with its funding wallet address a member of the funder addresses.
\<close>

definition spec_keep :: "FilterConfig \<Rightarrow> json \<Rightarrow> DevWalletFunding option \<Rightarrow> bool" where
  "spec_keep cfg dev funding =
     ((FILTER_BY_DEV_ADDRESS cfg \<and> is_member dev (DEV_ADDRESSES cfg)) \<or>
      (FILTER_BY_FUNDING_WALLET cfg \<and>
       (case funding of
          None \<Rightarrow> False
        | Some f \<Rightarrow> is_member (funding_wallet_address f) (FUNDER_ADDRESSES cfg))))"

text \<open>Inputs of the examples: a configuration with both criteria enabled, and records.\<close>

definition both_filters :: "string set \<Rightarrow> string set \<Rightarrow> FilterConfig" where
  "both_filters dev funder =
     (FilterConfig_init (Some dev) (Some funder))\<lparr>FILTER_BY_DEV_ADDRESS := True\<rparr>"

definition xhr_both :: "(string \<times> json) list" where
  "xhr_both = [(''devAddress'', JArr []),
               (''devWalletFunding'', JObj [(''fundingWalletAddress'', JStr ''X'')])]"

definition xhr_funded :: "json \<Rightarrow> (string \<times> json) list" where
  "xhr_funded a = [(''devAddress'', JStr ''D''),
                   (''devWalletFunding'', JObj [(''fundingWalletAddress'', a)])]"

definition pulse_funded :: "json \<Rightarrow> json list" where
  "pulse_funded a = [JStr ''P'', JStr ''T'', JStr ''D''] @ replicate 36 JNull @
                    [JObj [(''fundingWalletAddress'', a)]]"

text \<open>
  Stand-ins for the library functions in the examples: the parser and the serialiser
  know the texts and values of the examples, the codec is the identity.
\<close>

definition pulse_envelope :: "json list \<Rightarrow> (string \<times> json) list" where
  "pulse_envelope items = [(''room'', JStr ''update_pulse_v2''), (''content'', JArr items)]"

definition kucoin_item :: json where
  "kucoin_item = JArr (pulse_funded (JStr ''BmFdpraQhkiDQE6SnfG5omcA1VwzqfXrwtNYBwWTymy6''))"

definition pulse_text :: string where
  \<open>pulse_text = ''{"room":"update_pulse_v2","content":[["P","T","D",null,null,null,null,null,null,null,null,null,null,null,null,null,null,null,null,null,null,null,null,null,null,null,null,null,null,null,null,null,null,null,null,null,null,null,null,{"fundingWalletAddress":"BmFdpraQhkiDQE6SnfG5omcA1VwzqfXrwtNYBwWTymy6"}],[]]}''\<close>

definition pulse_text_kept :: string where
  \<open>pulse_text_kept = ''{"room": "update_pulse_v2", "content": [["P", "T", "D", null, null, null, null, null, null, null, null, null, null, null, null, null, null, null, null, null, null, null, null, null, null, null, null, null, null, null, null, null, null, null, null, null, null, null, null, {"fundingWalletAddress": "BmFdpraQhkiDQE6SnfG5omcA1VwzqfXrwtNYBwWTymy6"}]]}''\<close>

definition new_pairs_text :: string where
  \<open>new_pairs_text = ''{"room":"new_pairs","content":{"token_name":"T"}}''\<close>

definition new_pairs_content :: json where
  "new_pairs_content = JObj [(''token_name'', JStr ''T'')]"

definition xhr_text :: string where
  \<open>xhr_text = ''{"devAddress":"D","devWalletFunding":{"fundingWalletAddress":"Y"}}''\<close>

definition example_ext :: ext where
  "example_ext = \<lparr>
     json_loads = map_of
       [(pulse_text, JObj (pulse_envelope [kucoin_item, JArr []])),
        (new_pairs_text, JObj [(''room'', JStr ''new_pairs''), (''content'', new_pairs_content)]),
        (xhr_text, JObj (xhr_funded (JStr ''Y'')))],
     json_dumps = (\<lambda>v. if v = JObj (pulse_envelope [kucoin_item]) then pulse_text_kept
                        else if v = JObj [] then ''{}'' else []),
     utf8_decode = Some,
     utf8_encode = (\<lambda>t. t),
     b64encode = (\<lambda>b. b)\<rparr>"

definition server_message :: "string \<Rightarrow> bool \<Rightarrow> WebSocketMessage" where
  "server_message t is_text_v =
     \<lparr>content = t, is_text = is_text_v, from_client = False, dropped = False\<rparr>"

definition example_flow :: "WebSocketMessage list option \<Rightarrow> string \<Rightarrow> HTTPFlow" where
  "example_flow ws body = \<lparr>
     server_address = Some ''104.18.0.1'',
     pretty_host = ''api.axiom.trade'',
     request_path = ''/pulse'',
     request_method = ''POST'',
     websocket = ws,
     response_content = body\<rparr>"

section \<open>Properties\<close>

lemmas decoder_defs =
  UpdatePulseItem_from_array_def XHRPulseResponse_from_dict_def DevWalletFunding_from_ws_array_def
  DevWalletFunding_from_xhr_def dict_get_def slot_def nth_append

lemmas config_defs = both_filters_def FilterConfig_init_def config_def Let_def

subsection \<open>The evaluator\<close>

lemma py_in_set_cases:
  "py_in_set v S = (if hashable v then Inr (is_member v S) else Inl TypeError)"
  by (cases v) simp_all

lemma member_hashable: "is_member v S \<Longrightarrow> hashable v"
  by (cases v) simp_all

lemma py_in_set_True: "py_in_set v S = Inr True \<longleftrightarrow> is_member v S"
  by (cases v) simp_all

text \<open>Once the record is decoded, the result of the evaluator in every case.\<close>

lemma decide_pulse:
  assumes "py_positional item_array = Inr data" "UpdatePulseItem_from_array data = Inr item"
  shows "should_keep_update_pulse_item cfg item_array =
     (if FILTER_BY_DEV_ADDRESS cfg \<and> \<not> hashable (dev_address item) then Inl TypeError
      else if FILTER_BY_DEV_ADDRESS cfg \<and> is_member (dev_address item) (DEV_ADDRESSES cfg) then Inr True
      else if FILTER_BY_FUNDING_WALLET cfg then
        (case dev_wallet_funding item of None \<Rightarrow> Inr False
         | Some f \<Rightarrow> py_in_set (funding_wallet_address f) (FUNDER_ADDRESSES cfg))
      else Inr False)"
  using assms unfolding should_keep_update_pulse_item_def
  by (simp add: py_in_set_cases split: option.splits)

lemma decide_xhr:
  assumes "XHRPulseResponse_from_dict data = Inr r"
  shows "should_keep_xhr_response cfg (JObj data) =
     (if FILTER_BY_DEV_ADDRESS cfg \<and> \<not> hashable (x_dev_address r) then Inl TypeError
      else if FILTER_BY_DEV_ADDRESS cfg \<and> is_member (x_dev_address r) (DEV_ADDRESSES cfg) then Inr True
      else if FILTER_BY_FUNDING_WALLET cfg then
        (case x_dev_wallet_funding r of None \<Rightarrow> Inr False
         | Some f \<Rightarrow> py_in_set (funding_wallet_address f) (FUNDER_ADDRESSES cfg))
      else Inr False)"
  using assms unfolding should_keep_xhr_response_def
  by (simp add: py_in_set_cases split: option.splits)

lemma keep_pulse_iff:
  assumes "py_positional item_array = Inr data" "UpdatePulseItem_from_array data = Inr item"
  shows "should_keep_update_pulse_item cfg item_array = Inr True \<longleftrightarrow>
           spec_keep cfg (dev_address item) (dev_wallet_funding item) \<and>
           \<not> (FILTER_BY_DEV_ADDRESS cfg \<and> \<not> hashable (dev_address item))"
  by (auto simp: decide_pulse[OF assms] spec_keep_def py_in_set_True
        dest: member_hashable split: option.splits)

lemma keep_xhr_iff:
  assumes "XHRPulseResponse_from_dict data = Inr r"
  shows "should_keep_xhr_response cfg (JObj data) = Inr True \<longleftrightarrow>
           spec_keep cfg (x_dev_address r) (x_dev_wallet_funding r) \<and>
           \<not> (FILTER_BY_DEV_ADDRESS cfg \<and> \<not> hashable (x_dev_address r))"
  by (auto simp: decide_xhr[OF assms] spec_keep_def py_in_set_True
        dest: member_hashable split: option.splits)

text \<open>The evaluator on the records of the examples.\<close>

lemma both_filters_simps:
  "FILTER_BY_DEV_ADDRESS (both_filters dev funder)"
  "FILTER_BY_FUNDING_WALLET (both_filters dev funder)"
  "DEV_ADDRESSES (both_filters dev funder) = dev"
  "FUNDER_ADDRESSES (both_filters dev funder) = funder"
  by (simp_all add: config_defs)

lemma config_simps:
  "\<not> FILTER_BY_DEV_ADDRESS config"
  "FILTER_BY_FUNDING_WALLET config"
  "FUNDER_ADDRESSES config = {KUCOIN_ADDRESS config, MEXC_ADDRESS config, BYBIT_ADDRESS config}"
  by (simp_all add: config_defs)

lemma keep_xhr_funded:
  "should_keep_xhr_response cfg (JObj (xhr_funded a)) =
     (if FILTER_BY_DEV_ADDRESS cfg \<and> ''D'' \<in> DEV_ADDRESSES cfg then Inr True
      else if FILTER_BY_FUNDING_WALLET cfg then py_in_set a (FUNDER_ADDRESSES cfg)
      else Inr False)"
proof -
  have "\<exists>r. XHRPulseResponse_from_dict (xhr_funded a) = Inr r \<and> x_dev_address r = JStr ''D'' \<and>
          map_option funding_wallet_address (x_dev_wallet_funding r) = Some a"
    by (simp add: xhr_funded_def decoder_defs)
  then obtain r where r: "XHRPulseResponse_from_dict (xhr_funded a) = Inr r"
    "x_dev_address r = JStr ''D''"
    "map_option funding_wallet_address (x_dev_wallet_funding r) = Some a"
    by blast
  from r(3) obtain f where f: "x_dev_wallet_funding r = Some f" "funding_wallet_address f = a"
    by auto
  show ?thesis
    by (simp add: decide_xhr[OF r(1)] r(2) f)
qed

lemma keep_pulse_funded:
  "should_keep_update_pulse_item cfg (JArr (pulse_funded a)) =
     (if FILTER_BY_DEV_ADDRESS cfg \<and> ''D'' \<in> DEV_ADDRESSES cfg then Inr True
      else if FILTER_BY_FUNDING_WALLET cfg then py_in_set a (FUNDER_ADDRESSES cfg)
      else Inr False)"
proof -
  have "\<exists>item. UpdatePulseItem_from_array (pulse_funded a) = Inr item \<and> dev_address item = JStr ''D'' \<and>
          map_option funding_wallet_address (dev_wallet_funding item) = Some a"
    by (simp add: pulse_funded_def decoder_defs)
  then obtain item where r: "UpdatePulseItem_from_array (pulse_funded a) = Inr item"
    "dev_address item = JStr ''D''"
    "map_option funding_wallet_address (dev_wallet_funding item) = Some a"
    by blast
  from r(3) obtain f where f: "dev_wallet_funding item = Some f" "funding_wallet_address f = a"
    by auto
  have p: "py_positional (JArr (pulse_funded a)) = Inr (pulse_funded a)"
    by simp
  show ?thesis
    by (simp add: decide_pulse[OF p r(1)] r(2) f)
qed

lemma keep_empty:
  "should_keep_xhr_response cfg (JObj []) = Inr (FILTER_BY_DEV_ADDRESS cfg \<and> [] \<in> DEV_ADDRESSES cfg)"
  "should_keep_update_pulse_item cfg (JArr []) = Inr (FILTER_BY_DEV_ADDRESS cfg \<and> [] \<in> DEV_ADDRESSES cfg)"
proof -
  have "\<exists>r. XHRPulseResponse_from_dict [] = Inr r \<and> x_dev_address r = JStr [] \<and>
          x_dev_wallet_funding r = None"
    by (simp add: decoder_defs)
  then obtain r where r: "XHRPulseResponse_from_dict [] = Inr r" "x_dev_address r = JStr []"
    "x_dev_wallet_funding r = None"
    by blast
  show "should_keep_xhr_response cfg (JObj []) = Inr (FILTER_BY_DEV_ADDRESS cfg \<and> [] \<in> DEV_ADDRESSES cfg)"
    by (simp add: decide_xhr[OF r(1)] r(2,3))
  have "\<exists>item. UpdatePulseItem_from_array [] = Inr item \<and> dev_address item = JStr [] \<and>
          dev_wallet_funding item = None"
    by (simp add: decoder_defs)
  then obtain item where i: "UpdatePulseItem_from_array [] = Inr item" "dev_address item = JStr []"
    "dev_wallet_funding item = None"
    by blast
  have p: "py_positional (JArr []) = Inr []"
    by simp
  show "should_keep_update_pulse_item cfg (JArr []) = Inr (FILTER_BY_DEV_ADDRESS cfg \<and> [] \<in> DEV_ADDRESSES cfg)"
    by (simp add: decide_pulse[OF p i(1)] i(2,3))
qed

text \<open>
  C1, as stated, fails: with both criteria enabled, a record whose dev address is a JSON
  array and whose funding wallet address is a member of the funder addresses satisfies
  the criterion of the specification, yet the evaluator does not return true: the
  membership test of the dev address raises TypeError before the funding wallet is
  looked at.
\<close>

theorem evaluator_keep_iff_counterexample:
  "(case XHRPulseResponse_from_dict xhr_both of
      Inl e \<Rightarrow> False
    | Inr r \<Rightarrow> spec_keep (both_filters {''D''} {''X''}) (x_dev_address r) (x_dev_wallet_funding r)) \<and>
   should_keep_xhr_response (both_filters {''D''} {''X''}) (JObj xhr_both) = Inl TypeError"
  by (simp add: xhr_both_def should_keep_xhr_response_def spec_keep_def decoder_defs config_defs)

text \<open>
  C1, amended: for every configuration and every pulse-update item or XHR pulse record
  that decodes, the evaluator returns true if and only if the criterion of the
  specification holds and it is not the case that dev-address filtering is enabled on a
  dev address that cannot be hashed (a JSON array or object), where the evaluator raises
  TypeError. The dev address is tested first: when it is a member, the result is true
  whatever the funding wallet is. With both criteria disabled every such record is
  dropped.
\<close>

theorem evaluator_keep_iff:
  "(py_positional item_array = Inr data \<and> UpdatePulseItem_from_array data = Inr item \<longrightarrow>
      (should_keep_update_pulse_item cfg item_array = Inr True \<longleftrightarrow>
         spec_keep cfg (dev_address item) (dev_wallet_funding item) \<and>
         \<not> (FILTER_BY_DEV_ADDRESS cfg \<and> \<not> hashable (dev_address item))) \<and>
      (FILTER_BY_DEV_ADDRESS cfg \<and> \<not> hashable (dev_address item) \<longrightarrow>
         should_keep_update_pulse_item cfg item_array = Inl TypeError) \<and>
      (FILTER_BY_DEV_ADDRESS cfg \<and> is_member (dev_address item) (DEV_ADDRESSES cfg) \<longrightarrow>
         should_keep_update_pulse_item cfg item_array = Inr True) \<and>
      (\<not> FILTER_BY_DEV_ADDRESS cfg \<and> \<not> FILTER_BY_FUNDING_WALLET cfg \<longrightarrow>
         should_keep_update_pulse_item cfg item_array = Inr False)) \<and>
   (XHRPulseResponse_from_dict d = Inr r \<longrightarrow>
      (should_keep_xhr_response cfg (JObj d) = Inr True \<longleftrightarrow>
         spec_keep cfg (x_dev_address r) (x_dev_wallet_funding r) \<and>
         \<not> (FILTER_BY_DEV_ADDRESS cfg \<and> \<not> hashable (x_dev_address r))) \<and>
      (FILTER_BY_DEV_ADDRESS cfg \<and> \<not> hashable (x_dev_address r) \<longrightarrow>
         should_keep_xhr_response cfg (JObj d) = Inl TypeError) \<and>
      (FILTER_BY_DEV_ADDRESS cfg \<and> is_member (x_dev_address r) (DEV_ADDRESSES cfg) \<longrightarrow>
         should_keep_xhr_response cfg (JObj d) = Inr True) \<and>
      (\<not> FILTER_BY_DEV_ADDRESS cfg \<and> \<not> FILTER_BY_FUNDING_WALLET cfg \<longrightarrow>
         should_keep_xhr_response cfg (JObj d) = Inr False))"
proof (intro conjI impI)
  assume a: "py_positional item_array = Inr data \<and> UpdatePulseItem_from_array data = Inr item"
  then have p: "py_positional item_array = Inr data" and q: "UpdatePulseItem_from_array data = Inr item"
    by simp_all
  show "should_keep_update_pulse_item cfg item_array = Inr True \<longleftrightarrow>
         spec_keep cfg (dev_address item) (dev_wallet_funding item) \<and>
         \<not> (FILTER_BY_DEV_ADDRESS cfg \<and> \<not> hashable (dev_address item))"
    by (rule keep_pulse_iff[OF p q])
  show "should_keep_update_pulse_item cfg item_array = Inl TypeError"
    if "FILTER_BY_DEV_ADDRESS cfg \<and> \<not> hashable (dev_address item)"
    using that by (simp add: decide_pulse[OF p q])
  show "should_keep_update_pulse_item cfg item_array = Inr True"
    if "FILTER_BY_DEV_ADDRESS cfg \<and> is_member (dev_address item) (DEV_ADDRESSES cfg)"
    using that by (cases "dev_address item") (simp_all add: decide_pulse[OF p q])
  show "should_keep_update_pulse_item cfg item_array = Inr False"
    if "\<not> FILTER_BY_DEV_ADDRESS cfg \<and> \<not> FILTER_BY_FUNDING_WALLET cfg"
    using that by (simp add: decide_pulse[OF p q])
next
  assume q: "XHRPulseResponse_from_dict d = Inr r"
  show "should_keep_xhr_response cfg (JObj d) = Inr True \<longleftrightarrow>
         spec_keep cfg (x_dev_address r) (x_dev_wallet_funding r) \<and>
         \<not> (FILTER_BY_DEV_ADDRESS cfg \<and> \<not> hashable (x_dev_address r))"
    by (rule keep_xhr_iff[OF q])
  show "should_keep_xhr_response cfg (JObj d) = Inl TypeError"
    if "FILTER_BY_DEV_ADDRESS cfg \<and> \<not> hashable (x_dev_address r)"
    using that by (simp add: decide_xhr[OF q])
  show "should_keep_xhr_response cfg (JObj d) = Inr True"
    if "FILTER_BY_DEV_ADDRESS cfg \<and> is_member (x_dev_address r) (DEV_ADDRESSES cfg)"
    using that by (cases "x_dev_address r") (simp_all add: decide_xhr[OF q])
  show "should_keep_xhr_response cfg (JObj d) = Inr False"
    if "\<not> FILTER_BY_DEV_ADDRESS cfg \<and> \<not> FILTER_BY_FUNDING_WALLET cfg"
    using that by (simp add: decide_xhr[OF q])
qed

text \<open>
  The amended C1 at concrete records: a pulse item that decodes and is kept by its
  funding wallet, and an XHR record that decodes and is kept by its dev address although
  its funding wallet address is a JSON array.
\<close>

theorem evaluator_keep_iff_witness:
  "py_positional (JArr (pulse_funded (JStr ''X''))) = Inr (pulse_funded (JStr ''X'')) \<and>
   (\<exists>item. UpdatePulseItem_from_array (pulse_funded (JStr ''X'')) = Inr item) \<and>
   (\<exists>r. XHRPulseResponse_from_dict (xhr_funded (JArr [])) = Inr r) \<and>
   should_keep_update_pulse_item (both_filters {''E''} {''X''}) (JArr (pulse_funded (JStr ''X''))) = Inr True \<and>
   should_keep_xhr_response (both_filters {''D''} {''X''}) (JObj (xhr_funded (JArr []))) = Inr True"
proof -
  have "\<exists>item. UpdatePulseItem_from_array (pulse_funded (JStr ''X'')) = Inr item \<and>
          dev_address item = JStr ''D'' \<and>
          map_option funding_wallet_address (dev_wallet_funding item) = Some (JStr ''X'')"
    by (simp add: pulse_funded_def decoder_defs)
  then obtain item where item: "UpdatePulseItem_from_array (pulse_funded (JStr ''X'')) = Inr item"
    "dev_address item = JStr ''D''"
    "map_option funding_wallet_address (dev_wallet_funding item) = Some (JStr ''X'')"
    by blast
  have "\<exists>r. XHRPulseResponse_from_dict (xhr_funded (JArr [])) = Inr r \<and>
          x_dev_address r = JStr ''D''"
    by (simp add: xhr_funded_def decoder_defs)
  then obtain r where r: "XHRPulseResponse_from_dict (xhr_funded (JArr [])) = Inr r"
    "x_dev_address r = JStr ''D''"
    by blast
  have p: "py_positional (JArr (pulse_funded (JStr ''X''))) = Inr (pulse_funded (JStr ''X''))"
    by simp
  have c1: "FILTER_BY_DEV_ADDRESS (both_filters {''E''} {''X''})"
    "FILTER_BY_FUNDING_WALLET (both_filters {''E''} {''X''})"
    "DEV_ADDRESSES (both_filters {''E''} {''X''}) = {''E''}"
    "FUNDER_ADDRESSES (both_filters {''E''} {''X''}) = {''X''}"
    by (simp_all add: config_defs)
  have c2: "FILTER_BY_DEV_ADDRESS (both_filters {''D''} {''X''})"
    "DEV_ADDRESSES (both_filters {''D''} {''X''}) = {''D''}"
    by (simp_all add: config_defs)
  from evaluator_keep_iff [of "JArr (pulse_funded (JStr ''X''))" "pulse_funded (JStr ''X'')" item
      "both_filters {''E''} {''X''}" "xhr_funded (JArr [])" r] p item r
  have k1: "should_keep_update_pulse_item (both_filters {''E''} {''X''})
              (JArr (pulse_funded (JStr ''X''))) = Inr True"
    by (cases "dev_wallet_funding item") (simp_all add: spec_keep_def c1)
  from evaluator_keep_iff [of "JArr (pulse_funded (JStr ''X''))" "pulse_funded (JStr ''X'')" item
      "both_filters {''D''} {''X''}" "xhr_funded (JArr [])" r] r
  have k2: "should_keep_xhr_response (both_filters {''D''} {''X''}) (JObj (xhr_funded (JArr []))) = Inr True"
    by (simp add: c2)
  show ?thesis using p item(1) r(1) k1 k2 by blast
qed

subsection \<open>The content filters\<close>

lemma filter_pulse_returns:
  "\<forall>item\<in>set items. \<exists>b. should_keep_update_pulse_item cfg item = Inr b \<Longrightarrow>
   filter_update_pulse_content cfg items =
     Inr (filter (\<lambda>item. should_keep_update_pulse_item cfg item = Inr True) items)"
  by (induction items) auto

lemma filter_pulse_no_raise:
  "filter_update_pulse_content cfg items = Inr kept \<Longrightarrow>
   \<forall>item\<in>set items. \<exists>b. should_keep_update_pulse_item cfg item = Inr b"
  by (induction items arbitrary: kept) (auto split: sum.splits)

lemma filter_pulse_Inr:
  "filter_update_pulse_content cfg items = Inr kept \<longleftrightarrow>
     (\<forall>item\<in>set items. \<exists>b. should_keep_update_pulse_item cfg item = Inr b) \<and>
     kept = filter (\<lambda>item. should_keep_update_pulse_item cfg item = Inr True) items"
  using filter_pulse_returns[of items cfg] filter_pulse_no_raise[of cfg items kept] by auto

lemma filter_xhr_returns:
  "\<forall>resp\<in>set responses. \<exists>b. should_keep_xhr_response cfg resp = Inr b \<Longrightarrow>
   filter_xhr_responses cfg responses =
     Inr (filter (\<lambda>resp. should_keep_xhr_response cfg resp = Inr True) responses)"
  by (induction responses) auto

lemma filter_xhr_no_raise:
  "filter_xhr_responses cfg responses = Inr kept \<Longrightarrow>
   \<forall>resp\<in>set responses. \<exists>b. should_keep_xhr_response cfg resp = Inr b"
  by (induction responses arbitrary: kept) (auto split: sum.splits)

lemma filter_xhr_Inr:
  "filter_xhr_responses cfg responses = Inr kept \<longleftrightarrow>
     (\<forall>resp\<in>set responses. \<exists>b. should_keep_xhr_response cfg resp = Inr b) \<and>
     kept = filter (\<lambda>resp. should_keep_xhr_response cfg resp = Inr True) responses"
  using filter_xhr_returns[of responses cfg] filter_xhr_no_raise[of cfg responses kept] by auto

text \<open>
  C5, as stated, fails: under the default configuration, of two XHR records the first
  is one the evaluator keeps, and the second carries a JSON array as its funding wallet
  address, on which the evaluator raises TypeError. The subsequence of the records for
  which the evaluator returns true is the first record alone, but the filter produces
  no list: the raise ends the comprehension.
\<close>

theorem filter_subsequence_counterexample:
  "should_keep_xhr_response config (JObj (xhr_funded (JStr (KUCOIN_ADDRESS config)))) = Inr True \<and>
   filter_xhr_responses config
     [JObj (xhr_funded (JStr (KUCOIN_ADDRESS config))), JObj (xhr_funded (JArr []))] = Inl TypeError"
  by (simp add: keep_xhr_funded config_simps)

text \<open>
  C5, amended: for every content list and every configuration, the filter returns a
  list exactly when the evaluator raises on no item of the input, and the list is then
  the subsequence of the input items for which the evaluator returns true, in the
  input order; hence it is at most as long as the input and the evaluator returns true
  on each of its elements.
\<close>

theorem filter_subsequence:
  "(filter_update_pulse_content cfg items = Inr kept \<longleftrightarrow>
      (\<forall>item\<in>set items. \<exists>b. should_keep_update_pulse_item cfg item = Inr b) \<and>
      kept = filter (\<lambda>item. should_keep_update_pulse_item cfg item = Inr True) items) \<and>
   (filter_update_pulse_content cfg items = Inr kept \<longrightarrow>
      length kept \<le> length items \<and>
      (\<forall>item\<in>set kept. should_keep_update_pulse_item cfg item = Inr True)) \<and>
   (filter_xhr_responses cfg responses = Inr kept_x \<longleftrightarrow>
      (\<forall>resp\<in>set responses. \<exists>b. should_keep_xhr_response cfg resp = Inr b) \<and>
      kept_x = filter (\<lambda>resp. should_keep_xhr_response cfg resp = Inr True) responses) \<and>
   (filter_xhr_responses cfg responses = Inr kept_x \<longrightarrow>
      length kept_x \<le> length responses \<and>
      (\<forall>resp\<in>set kept_x. should_keep_xhr_response cfg resp = Inr True))"
  by (simp add: filter_pulse_Inr filter_xhr_Inr)

text \<open>
  The amended C5 at concrete lists: of three XHR records on none of which the evaluator
  raises, the one in the middle is kept; of two pulse items the second is kept.
\<close>

theorem filter_subsequence_witness:
  "should_keep_xhr_response (both_filters {''E''} {''X''}) (JObj (xhr_funded (JStr ''Y''))) = Inr False \<and>
   should_keep_xhr_response (both_filters {''E''} {''X''}) (JObj (xhr_funded (JStr ''X''))) = Inr True \<and>
   should_keep_xhr_response (both_filters {''E''} {''X''}) (JObj []) = Inr False \<and>
   filter_xhr_responses (both_filters {''E''} {''X''})
     [JObj (xhr_funded (JStr ''Y'')), JObj (xhr_funded (JStr ''X'')), JObj []] =
     Inr [JObj (xhr_funded (JStr ''X''))] \<and>
   filter_update_pulse_content (both_filters {''E''} {''X''})
     [JArr [], JArr (pulse_funded (JStr ''X''))] = Inr [JArr (pulse_funded (JStr ''X''))]"
  using filter_subsequence [of "both_filters {''E''} {''X''}"
      "[JArr [], JArr (pulse_funded (JStr ''X''))]" "[JArr (pulse_funded (JStr ''X''))]"
      "[JObj (xhr_funded (JStr ''Y'')), JObj (xhr_funded (JStr ''X'')), JObj []]"
      "[JObj (xhr_funded (JStr ''X''))]"]
  by (simp add: keep_xhr_funded keep_pulse_funded keep_empty both_filters_simps)

subsection \<open>The decoders\<close>

lemma slot_default: "length data \<le> i \<Longrightarrow> slot data i dflt = dflt"
  by (simp add: slot_def)

lemma from_array_slots:
  assumes "UpdatePulseItem_from_array data = Inr item"
  shows "pair_address item = slot data 0 (JStr '''') \<and>
     token_address item = slot data 1 (JStr '''') \<and>
     dev_address item = slot data 2 (JStr '''') \<and>
     token_name item = slot data 3 (JStr '''') \<and>
     token_ticker item = slot data 4 (JStr '''') \<and>
     token_image item = slot data 5 JNull \<and>
     token_decimals item = slot data 6 (JInt 0) \<and>
     protocol item = slot data 7 (JStr '''') \<and>
     website item = slot data 9 JNull \<and>
     twitter item = slot data 10 JNull \<and>
     telegram item = slot data 11 JNull \<and>
     discord item = slot data 12 JNull \<and>
     top_10_holders_percent item = slot data 13 (JFloat 0) \<and>
     dev_holds_percent item = slot data 14 (JFloat 0) \<and>
     snipers_hold_percent item = slot data 15 (JFloat 0) \<and>
     insiders_hold_percent item = slot data 16 (JFloat 0) \<and>
     bundlers_hold_percent item = slot data 17 (JFloat 0) \<and>
     volume_sol item = slot data 18 (JFloat 0) \<and>
     market_cap_sol item = slot data 19 (JFloat 0) \<and>
     fees_sol item = slot data 20 (JFloat 0) \<and>
     liquidity_sol item = slot data 21 (JFloat 0) \<and>
     liquidity_token item = slot data 22 (JFloat 0) \<and>
     num_txns item = slot data 23 (JInt 0) \<and>
     num_buys item = slot data 24 (JInt 0) \<and>
     num_sells item = slot data 25 (JInt 0) \<and>
     bonding_curve_percent item = slot data 26 (JFloat 0) \<and>
     supply_field item = slot data 27 (JFloat 0) \<and>
     num_holders item = slot data 28 (JInt 0) \<and>
     num_trading_bot_users item = slot data 29 (JInt 0) \<and>
     migrated_date item = slot data 30 JNull \<and>
     extra item = slot data 31 JNull \<and>
     field_32 item = slot data 32 JNull \<and>
     migrated_tokens item = slot data 33 JNull \<and>
     first_mint_date item = slot data 34 JNull \<and>
     field_35 item = slot data 35 JNull \<and>
     twitter_handle_history item = slot data 36 (JArr []) \<and>
     field_37 item = slot data 37 JNull \<and>
     dex_paid item = slot data 38 (JBool False) \<and>
     kol_count item = slot data 40 (JInt 0) \<and>
     dev_tokens item = slot data 41 JNull \<and>
     field_42 item = slot data 42 JNull"
  using assms by (auto simp: UpdatePulseItem_from_array_def Let_def split: sum.splits)

lemma from_array_protocol_details:
  assumes "UpdatePulseItem_from_array data = Inr item"
  shows "protocol_details item =
     (if length data > 8
      then (case data ! 8 of JObj d \<Rightarrow> Some (ProtocolDetails_from_dict d) | _ \<Rightarrow> None)
      else None)"
  using assms by (auto simp: UpdatePulseItem_from_array_def Let_def split: sum.splits)

lemma from_array_dev_wallet_funding:
  assumes "UpdatePulseItem_from_array data = Inr item"
  shows "Inr (dev_wallet_funding item) =
     (if length data > 39 \<and> truthy (data ! 39)
      then DevWalletFunding_from_ws_array (data ! 39) else Inr None)"
  using assms by (auto simp: UpdatePulseItem_from_array_def Let_def split: sum.splits)

text \<open>
  The decoder raises in one case only: the slot 39 is there and holds a truthy value
  that is not a dict.
\<close>

lemma from_array_raises_iff:
  "UpdatePulseItem_from_array data = Inl e \<longleftrightarrow>
     e = AttributeError \<and> length data > 39 \<and> truthy (data ! 39) \<and> (\<forall>d. data ! 39 \<noteq> JObj d)"
  by (auto simp: UpdatePulseItem_from_array_def DevWalletFunding_from_ws_array_def Let_def
        split: sum.splits json.splits if_splits)

lemma from_array_short_returns:
  "length data \<le> 39 \<Longrightarrow> \<exists>item. UpdatePulseItem_from_array data = Inr item"
  by (cases "UpdatePulseItem_from_array data") (simp_all add: from_array_raises_iff)

text \<open>
  What holds of C2 and C4 on the code: a value at index 8 that is not a dict gives no
  protocol details; a falsy value at index 39 gives no funding record; and whenever the
  decoder returns, every field whose index is at or beyond the length of the list has
  its default.
\<close>

lemma from_array_protocol_details_absent:
  assumes "UpdatePulseItem_from_array data = Inr item" "length data > 8" "\<forall>d. data ! 8 \<noteq> JObj d"
  shows "protocol_details item = None"
  using assms(2,3) by (cases "data ! 8") (simp_all add: from_array_protocol_details[OF assms(1)])

lemma from_array_funding_falsy:
  assumes "length data > 39" "\<not> truthy (data ! 39)"
  shows "\<exists>item. UpdatePulseItem_from_array data = Inr item \<and> dev_wallet_funding item = None"
proof (cases "UpdatePulseItem_from_array data")
  case (Inl e)
  with assms show ?thesis by (simp add: from_array_raises_iff)
next
  case (Inr item)
  with assms from_array_dev_wallet_funding[OF Inr] show ?thesis by auto
qed

lemma from_array_defaults:
  assumes "UpdatePulseItem_from_array data = Inr item"
  shows "(length data \<le> 0 \<longrightarrow> pair_address item = (JStr '''')) \<and>
     (length data \<le> 1 \<longrightarrow> token_address item = (JStr '''')) \<and>
     (length data \<le> 2 \<longrightarrow> dev_address item = (JStr '''')) \<and>
     (length data \<le> 3 \<longrightarrow> token_name item = (JStr '''')) \<and>
     (length data \<le> 4 \<longrightarrow> token_ticker item = (JStr '''')) \<and>
     (length data \<le> 5 \<longrightarrow> token_image item = JNull) \<and>
     (length data \<le> 6 \<longrightarrow> token_decimals item = (JInt 0)) \<and>
     (length data \<le> 7 \<longrightarrow> protocol item = (JStr '''')) \<and>
     (length data \<le> 8 \<longrightarrow> protocol_details item = None) \<and>
     (length data \<le> 9 \<longrightarrow> website item = JNull) \<and>
     (length data \<le> 10 \<longrightarrow> twitter item = JNull) \<and>
     (length data \<le> 11 \<longrightarrow> telegram item = JNull) \<and>
     (length data \<le> 12 \<longrightarrow> discord item = JNull) \<and>
     (length data \<le> 13 \<longrightarrow> top_10_holders_percent item = (JFloat 0)) \<and>
     (length data \<le> 14 \<longrightarrow> dev_holds_percent item = (JFloat 0)) \<and>
     (length data \<le> 15 \<longrightarrow> snipers_hold_percent item = (JFloat 0)) \<and>
     (length data \<le> 16 \<longrightarrow> insiders_hold_percent item = (JFloat 0)) \<and>
     (length data \<le> 17 \<longrightarrow> bundlers_hold_percent item = (JFloat 0)) \<and>
     (length data \<le> 18 \<longrightarrow> volume_sol item = (JFloat 0)) \<and>
     (length data \<le> 19 \<longrightarrow> market_cap_sol item = (JFloat 0)) \<and>
     (length data \<le> 20 \<longrightarrow> fees_sol item = (JFloat 0)) \<and>
     (length data \<le> 21 \<longrightarrow> liquidity_sol item = (JFloat 0)) \<and>
     (length data \<le> 22 \<longrightarrow> liquidity_token item = (JFloat 0)) \<and>
     (length data \<le> 23 \<longrightarrow> num_txns item = (JInt 0)) \<and>
     (length data \<le> 24 \<longrightarrow> num_buys item = (JInt 0)) \<and>
     (length data \<le> 25 \<longrightarrow> num_sells item = (JInt 0)) \<and>
     (length data \<le> 26 \<longrightarrow> bonding_curve_percent item = (JFloat 0)) \<and>
     (length data \<le> 27 \<longrightarrow> supply_field item = (JFloat 0)) \<and>
     (length data \<le> 28 \<longrightarrow> num_holders item = (JInt 0)) \<and>
     (length data \<le> 29 \<longrightarrow> num_trading_bot_users item = (JInt 0)) \<and>
     (length data \<le> 30 \<longrightarrow> migrated_date item = JNull) \<and>
     (length data \<le> 31 \<longrightarrow> extra item = JNull) \<and>
     (length data \<le> 32 \<longrightarrow> field_32 item = JNull) \<and>
     (length data \<le> 33 \<longrightarrow> migrated_tokens item = JNull) \<and>
     (length data \<le> 34 \<longrightarrow> first_mint_date item = JNull) \<and>
     (length data \<le> 35 \<longrightarrow> field_35 item = JNull) \<and>
     (length data \<le> 36 \<longrightarrow> twitter_handle_history item = (JArr [])) \<and>
     (length data \<le> 37 \<longrightarrow> field_37 item = JNull) \<and>
     (length data \<le> 38 \<longrightarrow> dex_paid item = (JBool False)) \<and>
     (length data \<le> 39 \<longrightarrow> dev_wallet_funding item = None) \<and>
     (length data \<le> 40 \<longrightarrow> kol_count item = (JInt 0)) \<and>
     (length data \<le> 41 \<longrightarrow> dev_tokens item = JNull) \<and>
     (length data \<le> 42 \<longrightarrow> field_42 item = JNull)"
proof -
  have "length data \<le> 39 \<longrightarrow> dev_wallet_funding item = None"
    using from_array_dev_wallet_funding[OF assms] by auto
  then show ?thesis
    using from_array_slots[OF assms] from_array_protocol_details[OF assms]
    by (simp add: slot_default)
qed

text \<open>
  C2: in every raw record in which a nested-object slot or key holds a value that is not
  a keyed object, the nested field decodes to None and the enclosing decode succeeds
  without raising. The code breaks this for the funding record: a truthy value that is
  not a dict, here the string "x" at index 39 of a list and under the key
  devWalletFunding of a dict, makes both decoders raise AttributeError (the value has no
  method get). The slot 8 in the same decoder is guarded by a test of the type.
\<close>

theorem nested_value_not_a_dict_raises:
  "UpdatePulseItem_from_array (replicate 39 JNull @ [JStr ''x'']) = Inl AttributeError \<and>
   XHRPulseResponse_from_dict [(''devWalletFunding'', JStr ''x'')] = Inl AttributeError"
  by (simp add: decoder_defs)

text \<open>
  C4: on every list of length 0 to 43 the decoder never raises and gives every field at
  or beyond the length its default. The code breaks the first half from length 40 on,
  by the same missing test of the type as in C2: on a list of length 40 with the number
  1 at index 39 the decoder raises AttributeError.
\<close>

theorem from_array_length_40_raises:
  "length (replicate 39 JNull @ [JInt 1]) = 40 \<and>
   UpdatePulseItem_from_array (replicate 39 JNull @ [JInt 1]) = Inl AttributeError"
  by (simp add: decoder_defs)

subsection \<open>The default configuration\<close>

text \<open>
  C10: under the default configuration dev-address filtering is disabled, funding-wallet
  filtering is enabled, and the funder addresses are exactly the three addresses of
  KuCoin, MEXC and Bybit, the Binance address not being one of them; hence a record is
  kept if and only if it decodes to a record with a funding record present whose funding
  wallet address is one of the three.
\<close>

theorem default_config_keep:
  "FILTER_BY_DEV_ADDRESS config = False \<and>
   FILTER_BY_FUNDING_WALLET config = True \<and>
   FUNDER_ADDRESSES config = {KUCOIN_ADDRESS config, MEXC_ADDRESS config, BYBIT_ADDRESS config} \<and>
   FUNDER_ADDRESSES config = {''BmFdpraQhkiDQE6SnfG5omcA1VwzqfXrwtNYBwWTymy6'',
                              ''ASTyfSima4LLAdDgoFGkgqoKowG1LZFDr9fAQrg7iaJZ'',
                              ''iGdFcQoyR2MwbXMHQskhmNsqddZ6rinsipHc4TNSdwu''} \<and>
   card (FUNDER_ADDRESSES config) = 3 \<and>
   BINANCE_ADDRESS config = ''5tzFkiKscXHK5ZXCGbXZxdw7gTjjD1mBwuoFbhUvuAi9'' \<and>
   BINANCE_ADDRESS config \<notin> FUNDER_ADDRESSES config \<and>
   (should_keep_update_pulse_item config item_array = Inr True \<longleftrightarrow>
      (\<exists>data item f a.
         py_positional item_array = Inr data \<and> UpdatePulseItem_from_array data = Inr item \<and>
         dev_wallet_funding item = Some f \<and> funding_wallet_address f = JStr a \<and>
         a \<in> {KUCOIN_ADDRESS config, MEXC_ADDRESS config, BYBIT_ADDRESS config})) \<and>
   (should_keep_xhr_response config record_v = Inr True \<longleftrightarrow>
      (\<exists>d r f a.
         record_v = JObj d \<and> XHRPulseResponse_from_dict d = Inr r \<and>
         x_dev_wallet_funding r = Some f \<and> funding_wallet_address f = JStr a \<and>
         a \<in> {KUCOIN_ADDRESS config, MEXC_ADDRESS config, BYBIT_ADDRESS config}))"
proof -
  have flags: "FILTER_BY_DEV_ADDRESS config = False" "FILTER_BY_FUNDING_WALLET config = True"
    by (simp_all add: config_defs)
  have funders:
    "FUNDER_ADDRESSES config = {KUCOIN_ADDRESS config, MEXC_ADDRESS config, BYBIT_ADDRESS config}"
    by (simp add: config_defs)
  have lits:
    "KUCOIN_ADDRESS config = ''BmFdpraQhkiDQE6SnfG5omcA1VwzqfXrwtNYBwWTymy6''"
    "MEXC_ADDRESS config = ''ASTyfSima4LLAdDgoFGkgqoKowG1LZFDr9fAQrg7iaJZ''"
    "BYBIT_ADDRESS config = ''iGdFcQoyR2MwbXMHQskhmNsqddZ6rinsipHc4TNSdwu''"
    "BINANCE_ADDRESS config = ''5tzFkiKscXHK5ZXCGbXZxdw7gTjjD1mBwuoFbhUvuAi9''"
    by (simp_all add: config_defs)
  have mem: "py_in_set v S = Inr True \<longleftrightarrow> (\<exists>a. v = JStr a \<and> a \<in> S)" for v S
    by (cases v) auto
  have pulse: "should_keep_update_pulse_item config item_array = Inr True \<longleftrightarrow>
      (\<exists>data item f a.
         py_positional item_array = Inr data \<and> UpdatePulseItem_from_array data = Inr item \<and>
         dev_wallet_funding item = Some f \<and> funding_wallet_address f = JStr a \<and>
         a \<in> FUNDER_ADDRESSES config)"
    unfolding should_keep_update_pulse_item_def
    by (auto simp: flags mem split: sum.splits option.splits)
  have xhr: "should_keep_xhr_response config record_v = Inr True \<longleftrightarrow>
      (\<exists>d r f a.
         record_v = JObj d \<and> XHRPulseResponse_from_dict d = Inr r \<and>
         x_dev_wallet_funding r = Some f \<and> funding_wallet_address f = JStr a \<and>
         a \<in> FUNDER_ADDRESSES config)"
    unfolding should_keep_xhr_response_def
    by (auto simp: flags mem split: sum.splits option.splits json.splits)
  have card3: "card (FUNDER_ADDRESSES config) = 3"
    by (simp add: funders lits)
  have binance: "BINANCE_ADDRESS config \<notin> FUNDER_ADDRESSES config"
    by (simp add: funders lits)
  have funders_lit: "FUNDER_ADDRESSES config = {''BmFdpraQhkiDQE6SnfG5omcA1VwzqfXrwtNYBwWTymy6'',
                              ''ASTyfSima4LLAdDgoFGkgqoKowG1LZFDr9fAQrg7iaJZ'',
                              ''iGdFcQoyR2MwbXMHQskhmNsqddZ6rinsipHc4TNSdwu''}"
    by (simp add: funders lits)
  show ?thesis
    using flags funders funders_lit card3 lits(4) binance pulse xhr
    by (simp only: simp_thms)
qed

subsection \<open>The counters\<close>

lemma record_update_pulse_ok:
  "stats_ok s \<Longrightarrow> 0 \<le> k \<Longrightarrow> k \<le> n \<Longrightarrow> stats_ok (record_update_pulse s n k)"
  by (simp add: stats_ok_def record_update_pulse_def)

lemma record_xhr_ok:
  "stats_ok s \<Longrightarrow> 0 \<le> k \<Longrightarrow> k \<le> n \<Longrightarrow> stats_ok (record_xhr s n k)"
  by (simp add: stats_ok_def record_xhr_def)

lemma record_new_pair_ok: "stats_ok s \<Longrightarrow> stats_ok (record_new_pair s kept)"
  by (simp add: stats_ok_def record_new_pair_def Let_def)

lemma reset_ok: "stats_ok (reset s)"
  by (simp add: stats_ok_def reset_def)

lemma init_ok: "stats_ok FilterStats_init"
  by (simp add: stats_ok_def FilterStats_init_def)

lemma apply_call_ok: "stats_ok s \<Longrightarrow> call_counts_ok c \<Longrightarrow> stats_ok (apply_call s c)"
  by (cases c) (simp_all add: record_update_pulse_ok record_xhr_ok record_new_pair_ok reset_ok)

lemma run_calls_ok:
  "stats_ok s \<Longrightarrow> \<forall>c\<in>set calls. call_counts_ok c \<Longrightarrow> stats_ok (run_calls s calls)"
  unfolding run_calls_def
  by (induction calls arbitrary: s) (simp_all add: apply_call_ok)

text \<open>
  C8, as stated, fails: the record calls take any two integers, and from fresh counters
  the single call \<^verbatim>\<open>record_update_pulse(0, 1)\<close> leaves one item kept out of none.
\<close>

theorem stats_invariant_counterexample:
  "\<not> stats_ok (run_calls FilterStats_init [RecordUpdatePulse 0 1])"
  by (simp add: run_calls_def stats_ok_def record_update_pulse_def FilterStats_init_def)

text \<open>
  C8, amended: after any sequence of record calls (and resets) in each of which the
  count of kept items is at least 0 and at most the total, starting from fresh or reset
  counters, each category has 0 \<le> kept \<le> total.
\<close>

theorem stats_invariant:
  "(\<forall>c\<in>set calls. call_counts_ok c) \<longrightarrow>
     stats_ok (run_calls FilterStats_init calls) \<and> stats_ok (run_calls (reset s) calls)"
  by (simp add: run_calls_ok init_ok reset_ok)

text \<open>The amended C8 on a sequence of five calls.\<close>

theorem stats_invariant_witness:
  "call_counts_ok (RecordUpdatePulse 3 1) \<and> call_counts_ok (RecordXhr 1 0) \<and>
   call_counts_ok (RecordNewPair True) \<and> call_counts_ok Reset \<and>
   call_counts_ok (RecordNewPair False) \<and>
   stats_ok (run_calls FilterStats_init
     [RecordUpdatePulse 3 1, RecordXhr 1 0, RecordNewPair True, Reset, RecordNewPair False])"
  using stats_invariant [of "[RecordUpdatePulse 3 1, RecordXhr 1 0, RecordNewPair True, Reset,
      RecordNewPair False]" FilterStats_init]
  by simp

subsection \<open>Classification of inbound messages\<close>

lemma py_contains_sublist: "py_contains sub s = sublist sub s"
  by (induction s) (simp_all add: sublist_Cons_right)

lemma py_contains_iff: "py_contains sub s \<longleftrightarrow> (\<exists>pre post. s = pre @ sub @ post)"
  by (simp add: py_contains_sublist sublist_def)

text \<open>
  C9: with the room names of the default configuration, the classifier returns the
  new\_pairs tag if and only if "new\_pairs" occurs within the first 50 characters of
  the lower-cased text, else the update\_pulse\_v2 tag if and only if "update\_pulse\_v2"
  occurs within them, else None; and when it returns None on the text of the last
  message, the hook returns the counters and the flow as they were.
\<close>

theorem room_classification:
  assumes "ROOM_NEW_PAIRS cfg = ''new_pairs''" and "ROOM_UPDATE_PULSE cfg = ''update_pulse_v2''"
  shows "(get_room_name cfg text = Some ''new_pairs'' \<longleftrightarrow>
            (\<exists>pre post. take 50 (py_lower text) = pre @ ''new_pairs'' @ post)) \<and>
         (get_room_name cfg text = Some ''update_pulse_v2'' \<longleftrightarrow>
            \<not> (\<exists>pre post. take 50 (py_lower text) = pre @ ''new_pairs'' @ post) \<and>
            (\<exists>pre post. take 50 (py_lower text) = pre @ ''update_pulse_v2'' @ post)) \<and>
         (get_room_name cfg text = None \<longleftrightarrow>
            \<not> (\<exists>pre post. take 50 (py_lower text) = pre @ ''new_pairs'' @ post) \<and>
            \<not> (\<exists>pre post. take 50 (py_lower text) = pre @ ''update_pulse_v2'' @ post)) \<and>
         (websocket flow = Some messages \<and> messages \<noteq> [] \<and>
          get_room_name cfg (decode_message_content x (content (last messages))) = None \<longrightarrow>
            websocket_message x cfg stats flow = (stats, flow))"
proof -
  have room: "get_room_name cfg text =
     (if \<exists>pre post. take 50 (py_lower text) = pre @ ''new_pairs'' @ post then Some ''new_pairs''
      else if \<exists>pre post. take 50 (py_lower text) = pre @ ''update_pulse_v2'' @ post
           then Some ''update_pulse_v2'' else None)"
    unfolding get_room_name_def Let_def assms py_contains_iff ..
  have hook: "websocket_message x cfg stats flow = (stats, flow)"
    if "websocket flow = Some messages \<and> messages \<noteq> [] \<and>
        get_room_name cfg (decode_message_content x (content (last messages))) = None"
    using that by (simp add: websocket_message_def Let_def)
  show ?thesis
    using hook by (simp add: room)
qed

text \<open>
  C9 at concrete texts under the default configuration: a text with capitals, a text of
  the other room, a text whose tag lies beyond the first 50 characters, and a message
  of an unknown room, which the hook leaves alone.
\<close>

theorem room_classification_witness:
  \<open>ROOM_NEW_PAIRS config = ''new_pairs'' \<and> ROOM_UPDATE_PULSE config = ''update_pulse_v2'' \<and>
   get_room_name config ''{"Room":"NEW_Pairs","content":{}}'' = Some ''new_pairs'' \<and>
   get_room_name config ''{"room":"update_pulse_v2","content":[]}'' = Some ''update_pulse_v2'' \<and>
   get_room_name config
     ''{"content":[],"padding":"0123456789012345678901234","room":"new_pairs"}'' = None \<and>
   websocket_message example_ext config FilterStats_init
     (example_flow (Some [server_message ''{"room":"trades","content":{}}'' True]) []) =
     (FilterStats_init,
      example_flow (Some [server_message ''{"room":"trades","content":{}}'' True]) [])\<close>
proof -
  have c: "ROOM_NEW_PAIRS config = ''new_pairs''" "ROOM_UPDATE_PULSE config = ''update_pulse_v2''"
    by (simp_all add: config_defs)
  have t1: \<open>take 50 (py_lower ''{"Room":"NEW_Pairs","content":{}}'') =
            ''{"room":'' @ [CHR 0x22] @ ''new_pairs'' @ ''","content":{}}''\<close>
    by code_simp
  have t3: \<open>get_room_name config
     ''{"content":[],"padding":"0123456789012345678901234","room":"new_pairs"}'' = None\<close>
    unfolding config_defs by code_simp
  have t4: \<open>get_room_name config (decode_message_content example_ext
              (content (last [server_message ''{"room":"trades","content":{}}'' True]))) = None\<close>
  proof -
    have \<open>get_room_name config ''{"room":"trades","content":{}}'' = None\<close>
      unfolding config_defs by code_simp
    then show ?thesis
      by (simp add: example_ext_def server_message_def decode_message_content_def)
  qed
  have f: \<open>websocket (example_flow (Some [server_message ''{"room":"trades","content":{}}'' True]) [])
           = Some [server_message ''{"room":"trades","content":{}}'' True]\<close>
    by (simp add: example_flow_def)
  from room_classification [OF c, of \<open>''{"Room":"NEW_Pairs","content":{}}''\<close>] t1
  have k1: \<open>get_room_name config ''{"Room":"NEW_Pairs","content":{}}'' = Some ''new_pairs''\<close>
    by (metis append_assoc)
  have k2: \<open>get_room_name config ''{"room":"update_pulse_v2","content":[]}'' = Some ''update_pulse_v2''\<close>
    unfolding config_defs by code_simp
  from room_classification [OF c, of _
      \<open>example_flow (Some [server_message ''{"room":"trades","content":{}}'' True]) []\<close>
      \<open>[server_message ''{"room":"trades","content":{}}'' True]\<close> example_ext FilterStats_init] f t4
  have k4: \<open>websocket_message example_ext config FilterStats_init
     (example_flow (Some [server_message ''{"room":"trades","content":{}}'' True]) []) =
     (FilterStats_init,
      example_flow (Some [server_message ''{"room":"trades","content":{}}'' True]) [])\<close>
    by simp
  show ?thesis using c k1 k2 t3 k4 by simp
qed

subsection \<open>The hook for HTTP responses\<close>

text \<open>
  C7: for a POST to /pulse on the target host whose response body parses to a single
  JSON object, if the evaluator drops the object the body is replaced with the
  serialised empty object, if the evaluator keeps it the body is left unchanged, and in
  every case the hook hands back the same flow with at most its body replaced: the
  response is never suppressed.
\<close>

theorem xhr_singleton_response:
  assumes "request_path flow = ''/pulse''" and "request_method flow = ''POST''"
    and "is_target_host cfg flow"
    and "json_loads x (response_content flow) = Some (JObj d)"
  shows "(should_keep_xhr_response cfg (JObj d) = Inr False \<longrightarrow>
            response x cfg stats flow =
              (record_xhr stats 1 0,
               flow\<lparr>response_content := utf8_encode x (json_dumps x (JObj []))\<rparr>)) \<and>
         (should_keep_xhr_response cfg (JObj d) = Inr True \<longrightarrow>
            response x cfg stats flow = (record_xhr stats 1 1, flow)) \<and>
         (\<exists>body. snd (response x cfg stats flow) = flow\<lparr>response_content := body\<rparr>)"
proof -
  have unchanged: "flow = flow\<lparr>response_content := response_content flow\<rparr>"
    by simp
  show ?thesis
  proof (cases "should_keep_xhr_response cfg (JObj d)")
    case (Inl e)
    then have "response x cfg stats flow = (stats, flow)"
      using assms by (simp add: response_def)
    with Inl unchanged show ?thesis by (metis snd_conv sum.distinct(1))
  next
    case (Inr keep)
    show ?thesis
    proof (cases keep)
      case True
      with Inr have "response x cfg stats flow = (record_xhr stats 1 1, flow)"
        using assms by (simp add: response_def)
      with Inr True unchanged show ?thesis by (metis snd_conv sum.inject(2))
    next
      case False
      with Inr have "response x cfg stats flow =
              (record_xhr stats 1 0,
               flow\<lparr>response_content := utf8_encode x (json_dumps x (JObj []))\<rparr>)"
        using assms by (simp add: response_def)
      with Inr False show ?thesis by (metis snd_conv sum.inject(2))
    qed
  qed
qed

lemma example_host: "is_target_host config (example_flow ws body)"
  by (simp add: is_target_host_def example_flow_def config_defs)

text \<open>
  C7 on a response whose single object is funded by a wallet that is not a funder
  address of the default configuration: the body becomes \<^verbatim>\<open>{}\<close>.
\<close>

theorem xhr_singleton_response_witness:
  "request_path (example_flow None xhr_text) = ''/pulse'' \<and>
   request_method (example_flow None xhr_text) = ''POST'' \<and>
   is_target_host config (example_flow None xhr_text) \<and>
   json_loads example_ext (response_content (example_flow None xhr_text)) =
     Some (JObj (xhr_funded (JStr ''Y''))) \<and>
   should_keep_xhr_response config (JObj (xhr_funded (JStr ''Y''))) = Inr False \<and>
   response example_ext config FilterStats_init (example_flow None xhr_text) =
     (record_xhr FilterStats_init 1 0, example_flow None ''{}'')"
proof -
  have a: "request_path (example_flow None xhr_text) = ''/pulse''"
    "request_method (example_flow None xhr_text) = ''POST''"
    by (simp_all add: example_flow_def)
  have l: "json_loads example_ext (response_content (example_flow None xhr_text)) =
     Some (JObj (xhr_funded (JStr ''Y'')))"
    by (simp add: example_ext_def example_flow_def xhr_text_def pulse_text_def new_pairs_text_def)
  have k: "should_keep_xhr_response config (JObj (xhr_funded (JStr ''Y''))) = Inr False"
    by (simp add: keep_xhr_funded config_simps config_defs)
  have e: "(example_flow None xhr_text)\<lparr>response_content :=
             utf8_encode example_ext (json_dumps example_ext (JObj []))\<rparr> = example_flow None ''{}''"
    by (simp add: example_flow_def example_ext_def pulse_envelope_def)
  from xhr_singleton_response [OF a example_host l, of FilterStats_init] k e
  have "response example_ext config FilterStats_init (example_flow None xhr_text) =
     (record_xhr FilterStats_init 1 0, example_flow None ''{}'')"
    by simp
  with a example_host l k show ?thesis by simp
qed

subsection \<open>The hook for WebSocket messages\<close>

lemma update_content_lookup:
  "map_of (AList.update ''content'' v data) ''content'' = Some v"
  "k \<noteq> ''content'' \<Longrightarrow> map_of (AList.update ''content'' v data) k = map_of data k"
  by (simp_all add: AList.update_conv')

lemma update_content_keys:
  assumes "map_of data ''content'' = Some w"
  shows "map fst (AList.update ''content'' v data) = map fst data"
proof -
  have "''content'' \<in> fst ` set data"
    using assms by (metis map_of_eq_None_iff option.distinct(1))
  then show ?thesis
    by (simp add: AList.update_keys)
qed

lemma example_items:
  "filter_update_pulse_content config [kucoin_item, JArr []] = Inr [kucoin_item]"
  by (simp add: kucoin_item_def keep_pulse_funded keep_empty config_simps config_defs)

lemma example_loads:
  "json_loads example_ext pulse_text = Some (JObj (pulse_envelope [kucoin_item, JArr []]))"
  by (simp add: example_ext_def)

lemma example_envelope:
  "map_of (pulse_envelope items) ''content'' = Some (JArr items)"
  "AList.update ''content'' v (pulse_envelope items) = [(''room'', JStr ''update_pulse_v2''), (''content'', v)]"
  by (simp_all add: pulse_envelope_def)

text \<open>
  C6, as stated, fails: an update\_pulse\_v2 envelope with two items, of which the filter
  keeps the first, arrives in a frame that is not a text frame. The kept list is not
  empty, yet the message is not re-encoded: it is left as it was, with both items.
\<close>

theorem update_pulse_message_outcome_counterexample:
  "json_loads example_ext pulse_text = Some (JObj (pulse_envelope [kucoin_item, JArr []])) \<and>
   filter_update_pulse_content config [kucoin_item, JArr []] = Inr [kucoin_item] \<and>
   snd (filter_update_pulse_message example_ext config FilterStats_init
          (server_message pulse_text False) pulse_text) = server_message pulse_text False \<and>
   content (server_message pulse_text False) \<noteq>
     utf8_encode example_ext (json_dumps example_ext
       (JObj (AList.update ''content'' (JArr [kucoin_item]) (pulse_envelope [kucoin_item, JArr []]))))"
proof -
  have d: "json_dumps example_ext (JObj (pulse_envelope [kucoin_item])) = pulse_text_kept"
    by (simp add: example_ext_def)
  have n: "pulse_text \<noteq> pulse_text_kept"
    by (simp add: pulse_text_def pulse_text_kept_def)
  have m: "snd (filter_update_pulse_message example_ext config FilterStats_init
          (server_message pulse_text False) pulse_text) = server_message pulse_text False"
    by (simp add: filter_update_pulse_message_def example_loads example_envelope example_items
          server_message_def del: filter_update_pulse_content.simps)
  have e: "utf8_encode example_ext t = t" for t
    by (simp add: example_ext_def)
  show ?thesis
    using n m d
    by (simp add: example_loads example_items example_envelope e server_message_def
          pulse_envelope_def[symmetric] del: filter_update_pulse_content.simps)
qed

text \<open>
  C6, amended: for every update\_pulse\_v2 envelope (a JSON object whose content is a
  list) on which the filter returns, if the kept list is empty the message is dropped
  and its content is not rewritten; if it is not empty and the message is a text frame,
  the message is re-encoded from the envelope with the content field replaced by the
  kept list, every other field and the order of the fields unchanged; if it is not
  empty and the message is not a text frame, the message is left unmodified.
\<close>

theorem update_pulse_message_outcome:
  assumes "json_loads x text = Some (JObj data)"
    and "map_of data ''content'' = Some (JArr items)"
    and "filter_update_pulse_content cfg items = Inr kept"
  shows "(kept = [] \<longrightarrow>
            snd (filter_update_pulse_message x cfg stats message text) = message\<lparr>dropped := True\<rparr>) \<and>
         (kept \<noteq> [] \<and> is_text message \<longrightarrow>
            snd (filter_update_pulse_message x cfg stats message text) =
              message\<lparr>content := utf8_encode x (json_dumps x
                 (JObj (AList.update ''content'' (JArr kept) data)))\<rparr>) \<and>
         (kept \<noteq> [] \<and> \<not> is_text message \<longrightarrow>
            snd (filter_update_pulse_message x cfg stats message text) = message) \<and>
         map_of (AList.update ''content'' (JArr kept) data) ''content'' = Some (JArr kept) \<and>
         (\<forall>k. k \<noteq> ''content'' \<longrightarrow>
            map_of (AList.update ''content'' (JArr kept) data) k = map_of data k) \<and>
         map fst (AList.update ''content'' (JArr kept) data) = map fst data"
  using assms
  by (simp add: filter_update_pulse_message_def Let_def update_content_lookup
        update_content_keys[OF assms(2)])

text \<open>
  The amended C6 on the envelope of the counterexample in a text frame: the message is
  re-encoded with the kept item alone.
\<close>

theorem update_pulse_message_outcome_witness:
  "json_loads example_ext pulse_text = Some (JObj (pulse_envelope [kucoin_item, JArr []])) \<and>
   map_of (pulse_envelope [kucoin_item, JArr []]) ''content'' = Some (JArr [kucoin_item, JArr []]) \<and>
   filter_update_pulse_content config [kucoin_item, JArr []] = Inr [kucoin_item] \<and>
   snd (filter_update_pulse_message example_ext config FilterStats_init
          (server_message pulse_text True) pulse_text) = server_message pulse_text_kept True"
proof -
  have d: "json_dumps example_ext (JObj (pulse_envelope [kucoin_item])) = pulse_text_kept"
    by (simp add: example_ext_def)
  have e: "utf8_encode example_ext t = t" for t
    by (simp add: example_ext_def)
  from update_pulse_message_outcome [OF example_loads example_envelope(1) example_items,
      of FilterStats_init "server_message pulse_text True"] d
  have "snd (filter_update_pulse_message example_ext config FilterStats_init
          (server_message pulse_text True) pulse_text) = server_message pulse_text_kept True"
    by (simp add: e example_envelope pulse_envelope_def[symmetric] server_message_def)
  then show ?thesis
    by (simp add: example_loads example_envelope example_items
          del: filter_update_pulse_content.simps)
qed

text \<open>
  The hook on a message of the new\_pairs room: after the filter, which keeps the
  message, the hook drops it.
\<close>

lemma new_pairs_always_dropped:
  assumes "is_target_host cfg flow" and "websocket flow = Some messages" and "messages \<noteq> []"
    and "\<not> from_client (last messages)"
    and "get_room_name cfg (decode_message_content x (content (last messages))) = Some (ROOM_NEW_PAIRS cfg)"
    and "ROOM_NEW_PAIRS cfg \<noteq> ROOM_UPDATE_PULSE cfg"
  shows "\<exists>kept. websocket (snd (websocket_message x cfg stats flow)) = Some (butlast messages @ [kept]) \<and>
           dropped kept"
  using assms
  by (auto simp: websocket_message_def Let_def split: prod.splits)

text \<open>
  C3: the policy keeps every new\_pairs message, and consequently the dispatch never
  drops one. The policy does return true, but the code breaks the consequence: on a
  new\_pairs message from the target host the filter counts the message as kept and
  leaves it alone, and the hook then drops it.
\<close>

theorem new_pairs_message_dropped:
  "should_keep_new_pair config new_pairs_content = True \<and>
   websocket_message example_ext config FilterStats_init
     (example_flow (Some [server_message new_pairs_text True]) []) =
     (FilterStats_init\<lparr>total_new_pairs := 1, filtered_new_pairs := 1\<rparr>,
      example_flow (Some [(server_message new_pairs_text True)\<lparr>dropped := True\<rparr>]) [])"
proof -
  have room: "get_room_name config new_pairs_text = Some ''new_pairs''"
    unfolding config_defs new_pairs_text_def by code_simp
  have names: "ROOM_NEW_PAIRS config = ''new_pairs''" "ROOM_UPDATE_PULSE config = ''update_pulse_v2''"
    by (simp_all add: config_defs)
  have l: "json_loads example_ext new_pairs_text =
      Some (JObj [(''room'', JStr ''new_pairs''), (''content'', new_pairs_content)])"
    by (simp add: example_ext_def new_pairs_text_def pulse_text_def)
  have d: "decode_message_content example_ext t = t" for t
    by (simp add: decode_message_content_def example_ext_def)
  have f: "filter_new_pairs_message example_ext config FilterStats_init
             (server_message new_pairs_text True) new_pairs_text =
           (FilterStats_init\<lparr>total_new_pairs := 1, filtered_new_pairs := 1\<rparr>,
            server_message new_pairs_text True)"
    by (simp add: filter_new_pairs_message_def l should_keep_new_pair_def record_new_pair_def
          FilterStats_init_def)
  have m: "content (server_message t b) = t" "\<not> from_client (server_message t b)" for t b
    by (simp_all add: server_message_def)
  have w: "websocket (example_flow ws body) = ws" for ws body
    by (simp add: example_flow_def)
  have "websocket_message example_ext config FilterStats_init
     (example_flow (Some [server_message new_pairs_text True]) []) =
     (FilterStats_init\<lparr>total_new_pairs := 1, filtered_new_pairs := 1\<rparr>,
      (example_flow (Some [server_message new_pairs_text True]) [])\<lparr>websocket :=
         Some [(server_message new_pairs_text True)\<lparr>dropped := True\<rparr>]\<rparr>)"
    by (simp add: websocket_message_def Let_def example_host d room names f m w)
  then show ?thesis
    by (simp add: should_keep_new_pair_def example_flow_def)
qed

subsection \<open>The counters under the hooks\<close>

text \<open>
  The hooks call the aggregator with the length of a list and the length of what the
  filter kept of it, or with one message: they keep the invariant on the counters.
\<close>

lemma filter_pulse_length:
  "filter_update_pulse_content cfg items = Inr kept \<Longrightarrow> length kept \<le> length items"
  by (simp add: filter_pulse_Inr)

lemma filter_xhr_length:
  "filter_xhr_responses cfg responses = Inr kept \<Longrightarrow> length kept \<le> length responses"
  by (simp add: filter_xhr_Inr)

lemma filter_update_pulse_message_stats_ok:
  assumes "stats_ok stats"
  shows "stats_ok (fst (filter_update_pulse_message x cfg stats message text))"
  using assms
  by (auto simp: filter_update_pulse_message_def Let_def record_update_pulse_ok
        dest: filter_pulse_length
        split: option.splits json.splits sum.splits)

lemma filter_new_pairs_message_stats_ok:
  assumes "stats_ok stats"
  shows "stats_ok (fst (filter_new_pairs_message x cfg stats message text))"
  using assms
  by (auto simp: filter_new_pairs_message_def Let_def record_new_pair_ok
        split: option.splits json.splits)

lemma websocket_message_stats_ok:
  assumes "stats_ok stats"
  shows "stats_ok (fst (websocket_message x cfg stats flow))"
  using filter_update_pulse_message_stats_ok[OF assms] filter_new_pairs_message_stats_ok[OF assms] assms
  by (auto simp: websocket_message_def Let_def split: option.splits prod.splits)
     (metis fst_conv)+

lemma response_stats_ok:
  assumes "stats_ok stats"
  shows "stats_ok (fst (response x cfg stats flow))"
  using assms
  by (auto simp: response_def record_xhr_ok dest: filter_xhr_length
        split: option.splits json.splits sum.splits)

end
